theory Spec2Isabelle
  imports Complex_Main "HOL-Library.Log_Nat"
begin

section \<open>JavaScript numbers\<close>

text \<open>
  The functions of \<^verbatim>\<open>utils.js\<close> compute on JavaScript numbers and test them with
  \<^verbatim>\<open>isNaN\<close>, \<^verbatim>\<open>=== 0\<close> and \<^verbatim>\<open>Infinity\<close>. A number is modelled as a finite real,
  one of the two infinities, or NaN (no signed zero). The operations \<open>jadd\<close>, \<open>jsub\<close>,
  \<open>jmul\<close>, \<open>jdiv\<close> compute exactly on finite numbers (no rounding, no overflow) and
  follow IEEE-754 on the other values; \<open>dadd\<close> further below is the addition with the
  rounding of IEEE-754 doubles, used where sums of the same numbers taken in different
  orders are compared.
\<close>

datatype jsnum = Fin real | PInf | NInf | NaN

fun isNaN :: "jsnum \<Rightarrow> bool" where
  "isNaN NaN = True"
| "isNaN _ = False"

fun jneg :: "jsnum \<Rightarrow> jsnum" where
  "jneg (Fin a) = Fin (- a)"
| "jneg PInf = NInf"
| "jneg NInf = PInf"
| "jneg NaN = NaN"

fun jadd :: "jsnum \<Rightarrow> jsnum \<Rightarrow> jsnum" where
  "jadd NaN _ = NaN"
| "jadd _ NaN = NaN"
| "jadd (Fin a) (Fin b) = Fin (a + b)"
| "jadd PInf NInf = NaN"
| "jadd NInf PInf = NaN"
| "jadd PInf _ = PInf"
| "jadd _ PInf = PInf"
| "jadd NInf _ = NInf"
| "jadd _ NInf = NInf"

definition jsub :: "jsnum \<Rightarrow> jsnum \<Rightarrow> jsnum" where
  "jsub a b = jadd a (jneg b)"

text \<open>The sign of a number that is not NaN: \<open>-1\<close>, \<open>0\<close> or \<open>1\<close>.\<close>

fun jsign :: "jsnum \<Rightarrow> real" where
  "jsign (Fin a) = sgn a"
| "jsign PInf = 1"
| "jsign NInf = - 1"
| "jsign NaN = 0"

definition signed_inf :: "real \<Rightarrow> jsnum" where
  "signed_inf s = (if s = 0 then NaN else if 0 < s then PInf else NInf)"

fun jmul :: "jsnum \<Rightarrow> jsnum \<Rightarrow> jsnum" where
  "jmul NaN _ = NaN"
| "jmul _ NaN = NaN"
| "jmul (Fin a) (Fin b) = Fin (a * b)"
| "jmul a b = signed_inf (jsign a * jsign b)"

text \<open>
  Division: a finite non-zero number divided by zero is an infinity with the sign of the
  numerator (the zero is taken as \<open>+0\<close>), \<open>0 / 0\<close> and \<open>\<infinity> / \<infinity>\<close> are NaN.
\<close>

fun jdiv :: "jsnum \<Rightarrow> jsnum \<Rightarrow> jsnum" where
  "jdiv NaN _ = NaN"
| "jdiv _ NaN = NaN"
| "jdiv (Fin a) (Fin b) = (if b = 0 then signed_inf a else Fin (a / b))"
| "jdiv (Fin a) _ = Fin 0"
| "jdiv PInf (Fin b) = (if b < 0 then NInf else PInf)"
| "jdiv NInf (Fin b) = (if b < 0 then PInf else NInf)"
| "jdiv _ _ = NaN"

text \<open>Comparisons: every comparison with NaN is false.\<close>

fun jlt :: "jsnum \<Rightarrow> jsnum \<Rightarrow> bool" where
  "jlt NaN _ = False"
| "jlt _ NaN = False"
| "jlt (Fin a) (Fin b) = (a < b)"
| "jlt _ NInf = False"
| "jlt NInf _ = True"
| "jlt PInf _ = False"
| "jlt _ PInf = True"

definition jgt :: "jsnum \<Rightarrow> jsnum \<Rightarrow> bool" where
  "jgt a b = jlt b a"

text \<open>Strict equality \<^verbatim>\<open>===\<close> on numbers: NaN is not equal to itself.\<close>

definition jeq :: "jsnum \<Rightarrow> jsnum \<Rightarrow> bool" where
  "jeq a b = (a = b \<and> \<not> isNaN a)"

definition jle :: "jsnum \<Rightarrow> jsnum \<Rightarrow> bool" where
  "jle a b = (jlt a b \<or> jeq a b)"

fun jabs :: "jsnum \<Rightarrow> jsnum" where
  "jabs (Fin a) = Fin \<bar>a\<bar>"
| "jabs PInf = PInf"
| "jabs NInf = PInf"
| "jabs NaN = NaN"

fun jsqrt :: "jsnum \<Rightarrow> jsnum" where
  "jsqrt (Fin a) = (if a < 0 then NaN else Fin (sqrt a))"
| "jsqrt PInf = PInf"
| "jsqrt NInf = NaN"
| "jsqrt NaN = NaN"

text \<open>
  \<^verbatim>\<open>Math.pow\<close>, case by case as ECMAScript's \<open>Number::exponentiate\<close> lists them.
\<close>

definition is_integer :: "real \<Rightarrow> bool" where
  "is_integer e = (e = of_int \<lfloor>e\<rfloor>)"

definition pow_fin :: "real \<Rightarrow> real \<Rightarrow> jsnum" where
  "pow_fin x e =
     (if x = 0 then (if 0 < e then Fin 0 else PInf)
      else if 0 < x then Fin (x powr e)
      else if is_integer e then Fin ((if odd \<lfloor>e\<rfloor> then - 1 else 1) * (\<bar>x\<bar> powr e))
      else NaN)"

fun jpow :: "jsnum \<Rightarrow> jsnum \<Rightarrow> jsnum" where
  "jpow b NaN = NaN"
| "jpow b (Fin e) =
     (if e = 0 then Fin 1
      else case b of
        NaN \<Rightarrow> NaN
      | PInf \<Rightarrow> (if 0 < e then PInf else Fin 0)
      | NInf \<Rightarrow> (if 0 < e then (if is_integer e \<and> odd \<lfloor>e\<rfloor> then NInf else PInf) else Fin 0)
      | Fin x \<Rightarrow> pow_fin x e)"
| "jpow b PInf =
     (case b of
        NaN \<Rightarrow> NaN
      | Fin x \<Rightarrow> (if 1 < \<bar>x\<bar> then PInf else if \<bar>x\<bar> = 1 then NaN else Fin 0)
      | _ \<Rightarrow> PInf)"
| "jpow b NInf =
     (case b of
        NaN \<Rightarrow> NaN
      | Fin x \<Rightarrow> (if 1 < \<bar>x\<bar> then Fin 0 else if \<bar>x\<bar> = 1 then NaN else PInf)
      | _ \<Rightarrow> Fin 0)"

subsection \<open>Addition in IEEE-754 doubles\<close>

text \<open>
  A double is a real of the form \<open>m * 2\<^sup>q\<close> with \<open>\<bar>m\<bar> < 2\<^sup>5\<^sup>3\<close> and \<open>-1074 \<le> q \<le> 971\<close>.
  \<open>round_double x\<close> is the double nearest to \<open>x\<close>, ties to the even mantissa, and
  an infinity from \<open>2\<^sup>1\<^sup>0\<^sup>2\<^sup>4\<close> on: with \<open>e = \<lfloor>log\<^sub>2 \<bar>x\<bar>\<rfloor>\<close> (at least \<open>-1022\<close>, where the
  subnormal numbers begin) the spacing of the doubles around \<open>x\<close> is \<open>2\<^sup>e\<^sup>-\<^sup>5\<^sup>2\<close>.
\<close>

definition binary_exponent :: "real \<Rightarrow> int" where
  "binary_exponent a = (if 1 \<le> a then bitlen \<lfloor>a\<rfloor> - 1 else - bitlen (\<lceil>1 / a\<rceil> - 1))"

definition round_half_even :: "real \<Rightarrow> int" where
  "round_half_even r =
     (let f = \<lfloor>r\<rfloor>; d = r - of_int f
      in if d < 1 / 2 then f else if 1 / 2 < d then f + 1 else if even f then f else f + 1)"

definition pow2 :: "int \<Rightarrow> real" where
  "pow2 e = (if 0 \<le> e then 2 ^ nat e else 1 / 2 ^ nat (- e))"

definition round_double :: "real \<Rightarrow> jsnum" where
  "round_double x =
     (if x = 0 then Fin 0
      else
        let a = \<bar>x\<bar>;
            e = max (binary_exponent a) (- 1022);
            q = pow2 (e - 52);
            y = of_int (round_half_even (a / q)) * q
        in if pow2 1024 \<le> y then (if 0 < x then PInf else NInf) else Fin (sgn x * y))"

text \<open>\<^verbatim>\<open>a + b\<close> on doubles: the exact sum, rounded.\<close>

fun dadd :: "jsnum \<Rightarrow> jsnum \<Rightarrow> jsnum" where
  "dadd NaN _ = NaN"
| "dadd _ NaN = NaN"
| "dadd (Fin a) (Fin b) = round_double (a + b)"
| "dadd PInf NInf = NaN"
| "dadd NInf PInf = NaN"
| "dadd PInf _ = PInf"
| "dadd _ PInf = PInf"
| "dadd NInf _ = NInf"
| "dadd _ NInf = NInf"

text \<open>\<^verbatim>\<open>arr.reduce((acc, val) => acc + val, 0)\<close>, exactly and in doubles.\<close>

definition dsum :: "jsnum list \<Rightarrow> jsnum" where
  "dsum xs = foldl dadd (Fin 0) xs"

definition jsum :: "jsnum list \<Rightarrow> jsnum" where
  "jsum xs = foldl jadd (Fin 0) xs"

text \<open>
  \<^verbatim>\<open>arr.slice(start, end)\<close> for \<open>0 \<le> start\<close> and \<open>0 \<le> end\<close>, the only way the
  indicator functions call it; past the end of the array the slice is cut short.
\<close>

definition slice :: "'a list \<Rightarrow> nat \<Rightarrow> nat \<Rightarrow> 'a list" where
  "slice xs s e = take (e - s) (drop s xs)"

section \<open>Technical indicators (utils.js)\<close>

subsection \<open>Simple moving average\<close>

text \<open>
  \<^verbatim>\<open>calculateSMAInternal\<close>: the loop variable \<open>i\<close> runs from \<open>period - 1\<close>, which is \<open>-1\<close>
  for a period of 0, so it is an integer; the slice bounds \<open>i - period + 1\<close> and \<open>i + 1\<close>
  are never negative.
\<close>

definition sma_at :: "jsnum list \<Rightarrow> nat \<Rightarrow> int \<Rightarrow> jsnum" where
  "sma_at data period i =
     (let sum = jsum (slice data (nat (i - int period + 1)) (nat (i + 1)))
      in jdiv sum (Fin (real period)))"

definition calculateSMAInternal :: "jsnum list \<Rightarrow> nat \<Rightarrow> jsnum list" where
  "calculateSMAInternal data period =
     (if length data < period then []
      else map (sma_at data period) [int period - 1 .. int (length data) - 1])"

subsection \<open>Exponential moving average\<close>

text \<open>
  \<^verbatim>\<open>calculateEMAInternal\<close>: the loop \<^verbatim>\<open>for (i = period; i < data.length; i++)\<close> reads
  \<open>data[i]\<close> only, so it is a recursion over \<open>data\<close> from index \<open>period\<close> on, carrying
  \<open>currentEma\<close>.
\<close>

fun ema_loop :: "jsnum \<Rightarrow> jsnum \<Rightarrow> jsnum list \<Rightarrow> jsnum list" where
  "ema_loop k currentEma [] = []"
| "ema_loop k currentEma (d # rest) =
     (let currentEma' = jadd (jmul d k) (jmul currentEma (jsub (Fin 1) k))
      in currentEma' # ema_loop k currentEma' rest)"

definition calculateEMAInternal :: "jsnum list \<Rightarrow> nat \<Rightarrow> jsnum list" where
  "calculateEMAInternal data period =
     (if length data < period then []
      else
        let k = jdiv (Fin 2) (Fin (real period + 1));
            currentEma = jdiv (jsum (slice data 0 period)) (Fin (real period))
        in currentEma # ema_loop k currentEma (drop period data))"

subsection \<open>Standard deviation and Bollinger Bands\<close>

definition stddev_at :: "jsnum list \<Rightarrow> nat \<Rightarrow> int \<Rightarrow> jsnum" where
  "stddev_at data period i =
     (let sl = slice data (nat (i - int period + 1)) (nat (i + 1));
          mean = jdiv (jsum sl) (Fin (real period));
          variance = jdiv (foldl (\<lambda>acc val. jadd acc (jpow (jsub val mean) (Fin 2))) (Fin 0) sl)
                          (Fin (real period))
      in jsqrt variance)"

definition calculateStandardDeviationInternal :: "jsnum list \<Rightarrow> nat \<Rightarrow> jsnum list" where
  "calculateStandardDeviationInternal data period =
     (if length data < period then []
      else map (stddev_at data period) [int period - 1 .. int (length data) - 1])"

record bollinger =
  upper :: "jsnum list"
  middle :: "jsnum list"
  lower :: "jsnum list"

text \<open>
  \<^verbatim>\<open>calculateBollingerBandsInternal\<close>: \<open>stdDevs[i]\<close> is read for \<open>i < middleBand.length\<close>;
  both arrays come from loops over the same index range, so the read is in range.
\<close>

definition calculateBollingerBandsInternal :: "jsnum list \<Rightarrow> nat \<Rightarrow> jsnum \<Rightarrow> bollinger" where
  "calculateBollingerBandsInternal data period numStdDev =
     (if length data < period then \<lparr>upper = [], middle = [], lower = []\<rparr>
      else
        let middleBand = calculateSMAInternal data period;
            stdDevs = calculateStandardDeviationInternal data period
        in \<lparr>upper = map (\<lambda>i. jadd (middleBand ! i) (jmul (stdDevs ! i) numStdDev))
                         [0 ..< length middleBand],
            middle = middleBand,
            lower = map (\<lambda>i. jsub (middleBand ! i) (jmul (stdDevs ! i) numStdDev))
                         [0 ..< length middleBand]\<rparr>)"

subsection \<open>Relative strength index\<close>

text \<open>
  \<^verbatim>\<open>calculateRSIInternal\<close>. The first loop, \<open>i = 1 .. period\<close>, accumulates \<open>gains\<close> and
  \<open>losses\<close>; the second, \<open>i = period + 1 .. data.length - 1\<close>, smooths the averages and
  pushes one RSI value per iteration. All reads \<open>data[i]\<close>, \<open>data[i - 1]\<close> are in range
  after the length guard.
\<close>

definition rsi_init_step :: "jsnum list \<Rightarrow> jsnum \<times> jsnum \<Rightarrow> nat \<Rightarrow> jsnum \<times> jsnum" where
  "rsi_init_step data gl i =
     (let change = jsub (data ! i) (data ! (i - 1))
      in if jgt change (Fin 0) then (jadd (fst gl) change, snd gl)
         else (fst gl, jadd (snd gl) (jabs change)))"

record rsi_state =
  avgGain :: jsnum
  avgLoss :: jsnum
  rsiValues :: "jsnum list"

definition rsi_step :: "jsnum list \<Rightarrow> nat \<Rightarrow> rsi_state \<Rightarrow> nat \<Rightarrow> rsi_state" where
  "rsi_step data period st i =
     (let change = jsub (data ! i) (data ! (i - 1));
          currentGain = (if jgt change (Fin 0) then change else Fin 0);
          currentLoss = (if jgt change (Fin 0) then Fin 0 else jabs change);
          avgGain' = jdiv (jadd (jmul (avgGain st) (Fin (real period - 1))) currentGain)
                          (Fin (real period));
          avgLoss' = jdiv (jadd (jmul (avgLoss st) (Fin (real period - 1))) currentLoss)
                          (Fin (real period));
          rs = (if jeq avgLoss' (Fin 0) then PInf else jdiv avgGain' avgLoss');
          rsi = jsub (Fin 100) (jdiv (Fin 100) (jadd (Fin 1) rs))
      in \<lparr>avgGain = avgGain', avgLoss = avgLoss', rsiValues = rsiValues st @ [rsi]\<rparr>)"

definition calculateRSIInternal :: "jsnum list \<Rightarrow> nat \<Rightarrow> jsnum list" where
  "calculateRSIInternal data period =
     (if length data < period + 1 then []
      else
        let gl = foldl (rsi_init_step data) (Fin 0, Fin 0) [1 ..< period + 1];
            st0 = \<lparr>avgGain = jdiv (fst gl) (Fin (real period)),
                   avgLoss = jdiv (snd gl) (Fin (real period)),
                   rsiValues = []\<rparr>
        in rsiValues (foldl (rsi_step data period) st0 [period + 1 ..< length data]))"

subsection \<open>Rolling volume-weighted average price\<close>

text \<open>
  \<^verbatim>\<open>calculateRollingVWAPInternal\<close>. An array element is \<open>null\<close> (\<open>None\<close>) or a number;
  a point is used when \<^verbatim>\<open>x !== null && !isNaN(x)\<close> holds for its price and its volume.
  The inner loop visits \<open>index = i - j\<close> for \<open>j = 0 .. period - 1\<close>. For a period of 0 the
  outer loop starts at \<open>i = -1\<close>, where the assignment \<^verbatim>\<open>vwapValues[-1] = null\<close> changes
  no array element; the remaining iterations are \<open>i = 0 .. length - 1\<close>.
\<close>

definition point_valid :: "jsnum option \<Rightarrow> bool" where
  "point_valid x = (case x of None \<Rightarrow> False | Some n \<Rightarrow> \<not> isNaN n)"

definition vwap_inner ::
  "jsnum option list \<Rightarrow> jsnum option list \<Rightarrow> nat \<Rightarrow> jsnum \<times> jsnum \<Rightarrow> nat \<Rightarrow> jsnum \<times> jsnum" where
  "vwap_inner prices volumes i acc j =
     (let index = i - j
      in if point_valid (prices ! index) \<and> point_valid (volumes ! index)
         then (jadd (fst acc) (jmul (the (prices ! index)) (the (volumes ! index))),
               jadd (snd acc) (the (volumes ! index)))
         else acc)"

definition vwap_at :: "jsnum option list \<Rightarrow> jsnum option list \<Rightarrow> nat \<Rightarrow> nat \<Rightarrow> jsnum option" where
  "vwap_at prices volumes period i =
     (let acc = foldl (vwap_inner prices volumes i) (Fin 0, Fin 0) [0 ..< period];
          sumPriceVolume = fst acc;
          sumVolume = snd acc
      in if jgt sumVolume (Fin 0) then Some (jdiv sumPriceVolume sumVolume) else None)"

definition calculateRollingVWAPInternal ::
  "jsnum option list \<Rightarrow> jsnum option list \<Rightarrow> nat \<Rightarrow> jsnum option list" where
  "calculateRollingVWAPInternal prices volumes period =
     (if length prices \<noteq> length volumes \<or> length prices < period
      then replicate (length prices) None
      else foldl (\<lambda>vwapValues i. vwapValues[i := vwap_at prices volumes period i])
                 (replicate (length prices) None) [period - 1 ..< length prices])"

section \<open>Resampling daily data (utils.js)\<close>

text \<open>
  The resamplers read the calendar through \<^verbatim>\<open>Date\<close> in the host's time zone. What they
  use of it is collected in a record of functions on epoch-millisecond timestamps:
  \<^item> \<open>weekStart t\<close>: \<^verbatim>\<open>d = new Date(t); d.setDate(d.getDate() - d.getDay() + (d.getDay() === 0 ? -6 : 1)); d.setHours(0,0,0,0); d.getTime()\<close>,
    the Monday of the week of \<open>t\<close> at midnight;
  \<^item> \<open>startOfDay t\<close>: \<^verbatim>\<open>d = new Date(t); d.setHours(0,0,0,0); d.getTime()\<close>;
  \<^item> \<open>fullYear t\<close>, \<open>monthOf t\<close>: \<^verbatim>\<open>getFullYear()\<close> and \<^verbatim>\<open>getMonth()\<close> of \<^verbatim>\<open>new Date(t)\<close>;
  \<^item> \<open>monthStart y m\<close>: \<^verbatim>\<open>new Date(y, m, 1, 0, 0, 0, 0).getTime()\<close>.
  Timestamps are valid dates (integers).
\<close>

record calendar =
  weekStart :: "int \<Rightarrow> int"
  startOfDay :: "int \<Rightarrow> int"
  fullYear :: "int \<Rightarrow> int"
  monthOf :: "int \<Rightarrow> int"
  monthStart :: "int \<Rightarrow> int \<Rightarrow> int"

text \<open>
  A calendar with a fixed offset from UTC (\<open>offset\<close> milliseconds east), for evaluation.
  Day 0 is Thursday 1970-01-01; the civil date of a day number is computed the usual way
  from 400-year eras that start on 1 March.
\<close>

definition ms_per_day :: int where
  "ms_per_day = 24 * 60 * 60 * 1000"

definition day_number :: "int \<Rightarrow> int \<Rightarrow> int" where
  "day_number offset t = (t + offset) div ms_per_day"

definition day_of_week :: "int \<Rightarrow> int" where
  "day_of_week days = (days + 4) mod 7"

definition civil_year_month :: "int \<Rightarrow> int \<times> int" where
  "civil_year_month days =
     (let z = days + 719468;
          era = z div 146097;
          doe = z - era * 146097;
          yoe = (doe - doe div 1460 + doe div 36524 - doe div 146096) div 365;
          doy = doe - (365 * yoe + yoe div 4 - yoe div 100);
          mp = (5 * doy + 2) div 153;
          m = (if mp < 10 then mp + 3 else mp - 9);
          y = yoe + era * 400 + (if m \<le> 2 then 1 else 0)
      in (y, m - 1))"

definition days_from_civil :: "int \<Rightarrow> int \<Rightarrow> int" where
  "days_from_civil year month0 =
     (let y0 = year + month0 div 12;
          m = month0 mod 12 + 1;
          y = (if m \<le> 2 then y0 - 1 else y0);
          era = y div 400;
          yoe = y - era * 400;
          doy = (153 * (if 2 < m then m - 3 else m + 9) + 2) div 5;
          doe = yoe * 365 + yoe div 4 - yoe div 100 + doy
      in era * 146097 + doe - 719468)"

definition fixed_offset_calendar :: "int \<Rightarrow> calendar" where
  "fixed_offset_calendar offset =
     \<lparr>weekStart = (\<lambda>t. let days = day_number offset t; dayOfWeek = day_of_week days
                       in (days - dayOfWeek + (if dayOfWeek = 0 then - 6 else 1)) * ms_per_day - offset),
      startOfDay = (\<lambda>t. day_number offset t * ms_per_day - offset),
      fullYear = (\<lambda>t. fst (civil_year_month (day_number offset t))),
      monthOf = (\<lambda>t. snd (civil_year_month (day_number offset t))),
      monthStart = (\<lambda>y m. days_from_civil y m * ms_per_day - offset)\<rparr>"

subsection \<open>Weekly resampling\<close>

record weekly =
  weeklyTimestamps :: "int list"
  weeklyPrices :: "jsnum list"
  weeklyVolumes :: "jsnum list"

record weekly_state =
  currentWeekStartTime :: "int option"
  currentWeekClose :: "jsnum option"
  currentWeekVolumeSum :: jsnum
  weeklyOut :: weekly

text \<open>
  \<^verbatim>\<open>resampleToWeeklyInternal\<close>: one loop iteration per daily point, in order. The loop
  is a recursion over the points still to come, each a \<open>[timestamp, price]\<close> pair with its
  volume; a point is the last day when nothing follows it, and otherwise the head of the
  rest is \<open>dailyPricesWithTimestamps[i + 1]\<close>. The running sum
  \<^verbatim>\<open>currentWeekVolumeSum += volume\<close> is an addition of doubles.
\<close>

fun weekly_loop :: "calendar \<Rightarrow> ((int \<times> jsnum) \<times> jsnum) list \<Rightarrow> weekly_state \<Rightarrow> weekly_state" where
  "weekly_loop cal [] st = st"
| "weekly_loop cal (((timestamp, price), volume) # rest) st =
     (let startTime = (case currentWeekStartTime st of
                         None \<Rightarrow> weekStart cal timestamp
                       | Some t \<Rightarrow> t);
          volumeSum = dadd (currentWeekVolumeSum st) volume;
          isLastDay = (rest = []);
          nextDayIsInNewWeek =
            (case rest of
               [] \<Rightarrow> False
             | ((nextTimestamp, _), _) # _ \<Rightarrow>
                 startTime + 7 * 24 * 60 * 60 * 1000 \<le> startOfDay cal nextTimestamp)
      in if isLastDay \<or> nextDayIsInNewWeek
         then weekly_loop cal rest
                \<lparr>currentWeekStartTime = None, currentWeekClose = None,
                 currentWeekVolumeSum = Fin 0,
                 weeklyOut =
                   \<lparr>weeklyTimestamps = weeklyTimestamps (weeklyOut st) @ [startTime],
                    weeklyPrices = weeklyPrices (weeklyOut st) @ [price],
                    weeklyVolumes = weeklyVolumes (weeklyOut st) @ [volumeSum]\<rparr>\<rparr>
         else weekly_loop cal rest
                \<lparr>currentWeekStartTime = Some startTime, currentWeekClose = Some price,
                 currentWeekVolumeSum = volumeSum, weeklyOut = weeklyOut st\<rparr>)"

definition resampleToWeeklyInternal :: "calendar \<Rightarrow> (int \<times> jsnum) list \<Rightarrow> jsnum list \<Rightarrow> weekly" where
  "resampleToWeeklyInternal cal dailyPricesWithTimestamps dailyVolumes =
     (if length dailyPricesWithTimestamps \<noteq> length dailyVolumes \<or> length dailyPricesWithTimestamps = 0
      then \<lparr>weeklyTimestamps = [], weeklyPrices = [], weeklyVolumes = []\<rparr>
      else weeklyOut
             (weekly_loop cal (zip dailyPricesWithTimestamps dailyVolumes)
                \<lparr>currentWeekStartTime = None, currentWeekClose = None,
                 currentWeekVolumeSum = Fin 0,
                 weeklyOut = \<lparr>weeklyTimestamps = [], weeklyPrices = [], weeklyVolumes = []\<rparr>\<rparr>))"

subsection \<open>Monthly resampling\<close>

record monthly =
  monthlyTimestamps :: "int list"
  monthlyPrices :: "jsnum list"
  monthlyVolumes :: "jsnum list"

record monthly_state =
  currentMonthStartTime :: "int option"
  currentMonthClose :: "jsnum option"
  currentMonthVolumeSum :: jsnum
  monthlyOut :: monthly

fun monthly_loop :: "calendar \<Rightarrow> ((int \<times> jsnum) \<times> jsnum) list \<Rightarrow> monthly_state \<Rightarrow> monthly_state" where
  "monthly_loop cal [] st = st"
| "monthly_loop cal (((timestamp, price), volume) # rest) st =
     (let startTime = (case currentMonthStartTime st of
                         None \<Rightarrow> monthStart cal (fullYear cal timestamp) (monthOf cal timestamp)
                       | Some t \<Rightarrow> t);
          volumeSum = dadd (currentMonthVolumeSum st) volume;
          isLastDay = (rest = []);
          nextDayIsInNewMonth =
            (case rest of
               [] \<Rightarrow> False
             | ((nextTimestamp, _), _) # _ \<Rightarrow>
                 fullYear cal startTime < fullYear cal nextTimestamp
                 \<or> monthOf cal startTime < monthOf cal nextTimestamp)
      in if isLastDay \<or> nextDayIsInNewMonth
         then monthly_loop cal rest
                \<lparr>currentMonthStartTime = None, currentMonthClose = None,
                 currentMonthVolumeSum = Fin 0,
                 monthlyOut =
                   \<lparr>monthlyTimestamps = monthlyTimestamps (monthlyOut st) @ [startTime],
                    monthlyPrices = monthlyPrices (monthlyOut st) @ [price],
                    monthlyVolumes = monthlyVolumes (monthlyOut st) @ [volumeSum]\<rparr>\<rparr>
         else monthly_loop cal rest
                \<lparr>currentMonthStartTime = Some startTime, currentMonthClose = Some price,
                 currentMonthVolumeSum = volumeSum, monthlyOut = monthlyOut st\<rparr>)"

definition resampleToMonthlyInternal :: "calendar \<Rightarrow> (int \<times> jsnum) list \<Rightarrow> jsnum list \<Rightarrow> monthly" where
  "resampleToMonthlyInternal cal dailyPricesWithTimestamps dailyVolumes =
     (if length dailyPricesWithTimestamps \<noteq> length dailyVolumes \<or> length dailyPricesWithTimestamps = 0
      then \<lparr>monthlyTimestamps = [], monthlyPrices = [], monthlyVolumes = []\<rparr>
      else monthlyOut
             (monthly_loop cal (zip dailyPricesWithTimestamps dailyVolumes)
                \<lparr>currentMonthStartTime = None, currentMonthClose = None,
                 currentMonthVolumeSum = Fin 0,
                 monthlyOut = \<lparr>monthlyTimestamps = [], monthlyPrices = [], monthlyVolumes = []\<rparr>\<rparr>))"

section \<open>Loosely typed values, accessors and formatters (utils.js)\<close>

text \<open>
  A value read from the API response: \<open>undefined\<close>, \<open>null\<close>, a number or a string.
\<close>

datatype jsval = JUndefined | JNull | JNum jsnum | JStr string

definition DEFAULT_NA_STRING :: string where
  "DEFAULT_NA_STRING = ''N/A''"

definition is_space :: "char \<Rightarrow> bool" where
  "is_space c = (c \<in> {CHR '' '', CHR 0x09, CHR 0x0A, CHR 0x0B, CHR 0x0C, CHR 0x0D})"

definition is_digit :: "char \<Rightarrow> bool" where
  "is_digit c = (c \<in> set ''0123456789'')"

definition trim :: "string \<Rightarrow> string" where
  "trim s = rev (dropWhile is_space (rev (dropWhile is_space s)))"

definition digits_value :: "string \<Rightarrow> nat" where
  "digits_value ds = foldl (\<lambda>acc c. 10 * acc + (of_char c - 48)) 0 ds"

text \<open>
  \<^verbatim>\<open>parseFloat\<close> of a string: leading white space is skipped, then the longest prefix
  that is a decimal literal (optional sign, \<open>Infinity\<close> or digits with an optional
  fraction and an optional exponent) is read; NaN when there is none.
\<close>

definition parse_exponent :: "string \<Rightarrow> int" where
  "parse_exponent r =
     (case r of
        [] \<Rightarrow> 0
      | c # r1 \<Rightarrow>
          if c = CHR ''e'' \<or> c = CHR ''E'' then
            (let negative = (case r1 of s # _ \<Rightarrow> s = CHR ''-'' | [] \<Rightarrow> False);
                 r2 = (case r1 of s # t \<Rightarrow> if s = CHR ''-'' \<or> s = CHR ''+'' then t else r1 | [] \<Rightarrow> r1);
                 ds = takeWhile is_digit r2
             in if ds = [] then 0
                else if negative then - int (digits_value ds) else int (digits_value ds))
          else 0)"

definition parseFloat_string :: "string \<Rightarrow> jsnum" where
  "parseFloat_string s =
     (let t = dropWhile is_space s;
          negative = (case t of c # _ \<Rightarrow> c = CHR ''-'' | [] \<Rightarrow> False);
          u = (case t of c # r \<Rightarrow> if c = CHR ''-'' \<or> c = CHR ''+'' then r else t | [] \<Rightarrow> t)
      in if take 8 u = ''Infinity'' then (if negative then NInf else PInf)
         else
           let ip = takeWhile is_digit u;
               r1 = dropWhile is_digit u;
               has_point = (case r1 of c # _ \<Rightarrow> c = CHR ''.'' | [] \<Rightarrow> False);
               fp = (if has_point then takeWhile is_digit (tl r1) else []);
               r2 = (if has_point then dropWhile is_digit (tl r1) else r1)
           in if ip = [] \<and> fp = [] then NaN
              else
                let m = real (digits_value ip) + real (digits_value fp) / 10 ^ length fp;
                    e = parse_exponent r2;
                    v = (if 0 \<le> e then m * 10 ^ nat e else m / 10 ^ nat (- e))
                in Fin (if negative then - v else v))"

text \<open>
  \<^verbatim>\<open>parseFloat(value)\<close> converts its argument to a string first: \<open>undefined\<close> and
  \<open>null\<close> give NaN, a number gives itself.
\<close>

fun parseFloat :: "jsval \<Rightarrow> jsnum" where
  "parseFloat JUndefined = NaN"
| "parseFloat JNull = NaN"
| "parseFloat (JNum n) = n"
| "parseFloat (JStr s) = parseFloat_string s"

text \<open>
  \<^verbatim>\<open>getSafeInternal(fn, defaultValue)\<close>: the accessor's result is \<open>None\<close> when \<open>fn\<close>
  throws.
\<close>

definition getSafeInternal :: "jsval option \<Rightarrow> jsval \<Rightarrow> jsval" where
  "getSafeInternal fn defaultValue =
     (case fn of
        None \<Rightarrow> defaultValue
      | Some v \<Rightarrow>
          if v = JUndefined \<or> v = JNull \<or> v = JStr [] then defaultValue
          else (case v of
                  JStr s \<Rightarrow> if trim s = ''-'' then defaultValue else v
                | _ \<Rightarrow> v))"

text \<open>
  One year of statements, as \<^verbatim>\<open>apiAdapter.js\<close> builds it: three maps from a line-item key
  to its value, \<open>JUndefined\<close> where the key is absent.
\<close>

record yearData =
  incomeStatement :: "string \<Rightarrow> jsval"
  balanceSheet :: "string \<Rightarrow> jsval"
  cashFlowStatement :: "string \<Rightarrow> jsval"

definition STMT_INC :: string where "STMT_INC = ''INC''"
definition STMT_BAL :: string where "STMT_BAL = ''BAL''"
definition STMT_CAS :: string where "STMT_CAS = ''CAS''"
definition FIN_KEY_REVENUE :: string where "FIN_KEY_REVENUE = ''Revenue''"
definition FIN_KEY_NET_INCOME :: string where "FIN_KEY_NET_INCOME = ''NetIncome''"

text \<open>
  \<^verbatim>\<open>findFinancialByYearInternal\<close>: \<open>yearlyFinancialData[yearIndex]\<close> is \<open>undefined\<close>
  past the end of the array.
\<close>

definition findFinancialByYearInternal ::
  "yearData list \<Rightarrow> nat \<Rightarrow> string \<Rightarrow> string \<Rightarrow> jsval \<Rightarrow> jsval" where
  "findFinancialByYearInternal yearlyFinancialData yearIndex statementTypeConstant key defaultValue =
     getSafeInternal
       (Some (if length yearlyFinancialData \<le> yearIndex then defaultValue
              else
                let yd = yearlyFinancialData ! yearIndex
                in if statementTypeConstant = STMT_INC then
                     (if incomeStatement yd key = JUndefined then defaultValue else incomeStatement yd key)
                   else if statementTypeConstant = STMT_BAL then
                     (if balanceSheet yd key = JUndefined then defaultValue else balanceSheet yd key)
                   else if statementTypeConstant = STMT_CAS then
                     (if cashFlowStatement yd key = JUndefined then defaultValue else cashFlowStatement yd key)
                   else defaultValue))
       defaultValue"

text \<open>
  The \<open>value\<close> field of a formatted metric is a string. Strings produced by number
  formatting are kept symbolic: \<open>ToFixed n d\<close> stands for \<^verbatim>\<open>n.toFixed(d)\<close> and
  \<open>ToLocaleIN n\<close> for \<^verbatim>\<open>n.toLocaleString('en-IN', ...)\<close>; neither is ever one of the
  literal texts \<open>N/A\<close> or \<open>Not Meaningful\<close>, which are \<open>Text\<close>.
\<close>

datatype display = Text string | ToFixed jsnum nat | ToLocaleIN jsnum

record formatted =
  fvalue :: display
  unit :: string
  raw :: jsnum
  colorClass :: string

definition sign_colorClass :: "jsnum \<Rightarrow> string" where
  "sign_colorClass num =
     (if jgt num (Fin 0) then ''change-positive-text''
      else if jlt num (Fin 0) then ''change-negative-text''
      else [])"

definition formatPercentageInternal :: "jsval \<Rightarrow> string \<Rightarrow> bool \<Rightarrow> formatted" where
  "formatPercentageInternal v defaultValue colorOnPositiveNegative =
     (let num = parseFloat v
      in if isNaN num \<or> v = JStr DEFAULT_NA_STRING
         then \<lparr>fvalue = Text defaultValue, unit = [], raw = NaN, colorClass = []\<rparr>
         else \<lparr>fvalue = ToFixed num 2, unit = ''%'', raw = num,
               colorClass = (if colorOnPositiveNegative then sign_colorClass num else [])\<rparr>)"


definition formatRatioInternal :: "jsval \<Rightarrow> string \<Rightarrow> formatted" where
  "formatRatioInternal v defaultValue =
     (let num = parseFloat v
      in if isNaN num \<or> v = JStr DEFAULT_NA_STRING
         then \<lparr>fvalue = Text defaultValue, unit = [], raw = NaN, colorClass = []\<rparr>
         else \<lparr>fvalue = ToFixed num 2, unit = ''x'', raw = num, colorClass = []\<rparr>)"

subsection \<open>Compound annual growth rate\<close>

definition calculateCAGRInternal :: "jsval \<Rightarrow> jsval \<Rightarrow> jsnum \<Rightarrow> string \<Rightarrow> formatted" where
  "calculateCAGRInternal endValue startValue years defaultValue =
     (let endVal = parseFloat endValue;
          startVal = parseFloat startValue
      in if isNaN endVal \<or> isNaN startVal \<or> jeq startVal (Fin 0) \<or> jle years (Fin 0)
            \<or> endValue = JStr DEFAULT_NA_STRING \<or> startValue = JStr DEFAULT_NA_STRING
         then \<lparr>fvalue = Text defaultValue, unit = [], raw = NaN, colorClass = []\<rparr>
         else if jle startVal (Fin 0) \<or> jle endVal (Fin 0)
         then \<lparr>fvalue = Text ''Not Meaningful'', unit = [], raw = NaN, colorClass = []\<rparr>
         else
           let cagr = jmul (jsub (jpow (jdiv endVal startVal) (jdiv (Fin 1) years)) (Fin 1)) (Fin 100)
           in \<lparr>fvalue = ToFixed cagr 2, unit = ''%'', raw = cagr, colorClass = sign_colorClass cagr\<rparr>)"

subsection \<open>Net profit margin\<close>

text \<open>
  \<^verbatim>\<open>calculateProfitabilityMetricsInternal\<close> builds nine metrics independently of one
  another from the latest year; this is the second one, \<open>Net Profit Margin\<close>, with the
  two raw values it is computed from. The function is called with the accessor and the
  formatters of \<^verbatim>\<open>utils.js\<close> themselves.
\<close>

definition netProfitMarginRaw :: "yearData list \<Rightarrow> jsnum" where
  "netProfitMarginRaw stockDataFinancials =
     (let netIncomeRaw = findFinancialByYearInternal stockDataFinancials 0 STMT_INC FIN_KEY_NET_INCOME
                           (JStr DEFAULT_NA_STRING);
          revenueCurrentRaw = findFinancialByYearInternal stockDataFinancials 0 STMT_INC FIN_KEY_REVENUE
                                (JStr DEFAULT_NA_STRING)
      in jmul (jdiv (parseFloat netIncomeRaw) (parseFloat revenueCurrentRaw)) (Fin 100))"

definition netProfitMarginMetric :: "yearData list \<Rightarrow> formatted" where
  "netProfitMarginMetric stockDataFinancials =
     formatPercentageInternal (JNum (netProfitMarginRaw stockDataFinancials)) DEFAULT_NA_STRING True"

section \<open>Peer companies (apiAdapter.js, utils.js)\<close>


datatype error = TypeError















section \<open>Signal scoring (useTechnicalAnalysis.js)\<close>

text \<open>
  The second effect of the hook turns the indicator bundles of the three timeframes into
  one signal. An indicator slot holds what \<open>calculateIndicatorsForPeriod\<close> stores in it:
  \<open>null\<close>, a number, or \<open>undefined\<close> (the last element of an empty array). In a
  comparison with the current price, \<open>undefined\<close> converts to NaN and \<open>null\<close> to 0.
\<close>

datatype slot = SNull | SUndefined | SNum jsnum

fun toNumber :: "slot \<Rightarrow> jsnum" where
  "toNumber SNull = Fin 0"
| "toNumber SUndefined = NaN"
| "toNumber (SNum n) = n"

record macd_entry =
  macd_macd :: slot
  macd_signal :: slot
  macd_histogram :: slot

text \<open>
  The bundle of one timeframe (\<open>tf.data\<close>):
  \<^item> \<open>error\<close>: the \<open>error\<close> message, when there is one;
  \<^item> \<open>smas\<close>, \<open>emas\<close>: \<open>None\<close> when the object is absent, otherwise the \<open>value\<close> stored
    under \<open>SMA_p\<close> or \<open>EMA_p\<close> for each period \<open>p\<close> (every period has an entry);
  \<^item> \<open>rsi\<close>: \<open>None\<close> when \<open>rsi\<close> is \<open>null\<close> or absent, otherwise the number \<open>n\<close> whose
    two-decimal text \<^verbatim>\<open>n.toFixed(2)\<close> is stored as \<open>rsi.value\<close>;
  \<^item> \<open>macd\<close>: \<open>None\<close> when \<open>macd\<close> is \<open>null\<close> or absent;
  \<^item> \<open>vwap\<close>: the slot itself;
  \<^item> \<open>obvFullSeries\<close>: \<open>None\<close> when absent.
\<close>

record indicators =
  error :: "string option"
  smas :: "(nat \<Rightarrow> slot) option"
  emas :: "(nat \<Rightarrow> slot) option"
  rsi :: "jsnum option"
  macd :: "macd_entry option"
  vwap :: slot
  obvFullSeries :: "jsnum list option"

definition SMA_PERIODS :: "nat list" where "SMA_PERIODS = [20, 50, 200]"
definition EMA_PERIODS :: "nat list" where "EMA_PERIODS = [20, 50, 200]"
definition RSI_OVERSOLD_THRESHOLD :: nat where "RSI_OVERSOLD_THRESHOLD = 30"
definition RSI_OVERBOUGHT_THRESHOLD :: nat where "RSI_OVERBOUGHT_THRESHOLD = 70"
definition VWAP_PERIOD :: nat where "VWAP_PERIOD = 20"
definition VOLUME_SMA_PERIOD :: nat where "VOLUME_SMA_PERIOD = 20"

text \<open>A natural number in a template string: its decimal digits.\<close>

function decimal :: "nat \<Rightarrow> string" where
  "decimal n = (if n < 10 then [char_of (48 + n)] else decimal (n div 10) @ [char_of (48 + n mod 10)])"
  by pat_completeness auto
termination
  by (relation "measure id") auto

declare decimal.simps [simp del]

text \<open>
  The number read back by \<^verbatim>\<open>parseFloat(n.toFixed(d))\<close>: \<open>n\<close> rounded to \<open>d\<close> decimals,
  halves away from zero; numbers of magnitude \<open>10\<^sup>2\<^sup>1\<close> or more, the infinities and NaN
  are printed and read back unchanged.
\<close>

fun toFixed_value :: "jsnum \<Rightarrow> nat \<Rightarrow> jsnum" where
  "toFixed_value (Fin x) d =
     (if 10 ^ 21 \<le> \<bar>x\<bar> then Fin x
      else Fin (sgn x * real_of_int \<lfloor>\<bar>x\<bar> * 10 ^ d + 1 / 2\<rfloor> / 10 ^ d))"
| "toFixed_value n d = n"

record score =
  totalBullishScore :: real
  totalBearishScore :: real
  signalReasons :: "string list"

definition bullish_vote :: "real \<Rightarrow> string \<Rightarrow> score \<Rightarrow> score" where
  "bullish_vote points reason st =
     st\<lparr>totalBullishScore := totalBullishScore st + points,
        signalReasons := signalReasons st @ [reason]\<rparr>"

definition bearish_vote :: "real \<Rightarrow> string \<Rightarrow> score \<Rightarrow> score" where
  "bearish_vote points reason st =
     st\<lparr>totalBearishScore := totalBearishScore st + points,
        signalReasons := signalReasons st @ [reason]\<rparr>"

text \<open>1. Price vs SMAs: the body of \<^verbatim>\<open>SMA_PERIODS.forEach\<close>.\<close>

definition sma_vote :: "string \<Rightarrow> real \<Rightarrow> jsnum \<Rightarrow> (nat \<Rightarrow> slot) option \<Rightarrow> score \<Rightarrow> nat \<Rightarrow> score" where
  "sma_vote tfName tfWeight currentPrice smas_obj st p =
     (case smas_obj of
        None \<Rightarrow> st
      | Some sm \<Rightarrow>
          if sm p \<noteq> SNull then
            (if jgt currentPrice (toNumber (sm p))
             then bullish_vote (1 * tfWeight) (tfName @ '': Price > SMA '' @ decimal p) st
             else bearish_vote (1 * tfWeight) (tfName @ '': Price < SMA '' @ decimal p) st)
          else st)"

text \<open>2. Price vs EMAs: the body of \<^verbatim>\<open>EMA_PERIODS.forEach\<close>.\<close>

definition ema_vote :: "string \<Rightarrow> real \<Rightarrow> jsnum \<Rightarrow> (nat \<Rightarrow> slot) option \<Rightarrow> score \<Rightarrow> nat \<Rightarrow> score" where
  "ema_vote tfName tfWeight currentPrice emas_obj st p =
     (case emas_obj of
        None \<Rightarrow> st
      | Some em \<Rightarrow>
          if em p \<noteq> SNull then
            (if jgt currentPrice (toNumber (em p))
             then bullish_vote (1 * tfWeight) (tfName @ '': Price > EMA '' @ decimal p) st
             else bearish_vote (1 * tfWeight) (tfName @ '': Price < EMA '' @ decimal p) st)
          else st)"

text \<open>3. MACD: four independent tests.\<close>

definition macd_vote :: "string \<Rightarrow> real \<Rightarrow> macd_entry option \<Rightarrow> score \<Rightarrow> score" where
  "macd_vote tfName tfWeight macd_obj st =
     (case macd_obj of
        None \<Rightarrow> st
      | Some m \<Rightarrow>
          if macd_macd m \<noteq> SNull \<and> macd_signal m \<noteq> SNull then
            (let st1 = (if jgt (toNumber (macd_macd m)) (toNumber (macd_signal m))
                        then bullish_vote (2 * tfWeight) (tfName @ '': MACD Line above Signal Line'') st
                        else st);
                 st2 = (if jlt (toNumber (macd_macd m)) (toNumber (macd_signal m))
                        then bearish_vote (2 * tfWeight) (tfName @ '': MACD Line below Signal Line'') st1
                        else st1);
                 st3 = (if macd_histogram m \<noteq> SNull \<and> jgt (toNumber (macd_histogram m)) (Fin 0)
                        then bullish_vote (0.5 * tfWeight) (tfName @ '': MACD Histogram Positive'') st2
                        else st2)
             in if macd_histogram m \<noteq> SNull \<and> jlt (toNumber (macd_histogram m)) (Fin 0)
                then bearish_vote (0.5 * tfWeight) (tfName @ '': MACD Histogram Negative'') st3
                else st3)
          else st)"

text \<open>4. RSI.\<close>

definition rsi_vote :: "string \<Rightarrow> real \<Rightarrow> jsnum option \<Rightarrow> score \<Rightarrow> score" where
  "rsi_vote tfName tfWeight rsi_obj st =
     (case rsi_obj of
        None \<Rightarrow> st
      | Some n \<Rightarrow>
          (let rsiVal = toFixed_value n 2;
               st1 = (if jlt rsiVal (Fin (real RSI_OVERSOLD_THRESHOLD))
                      then bullish_vote (1.5 * tfWeight)
                             (tfName @ '': RSI < '' @ decimal RSI_OVERSOLD_THRESHOLD @ '' (Oversold)'') st
                      else st)
           in if jgt rsiVal (Fin (real RSI_OVERBOUGHT_THRESHOLD))
              then bearish_vote (1.5 * tfWeight)
                     (tfName @ '': RSI > '' @ decimal RSI_OVERBOUGHT_THRESHOLD @ '' (Overbought)'') st1
              else st1))"

text \<open>5. Price vs VWAP.\<close>

definition vwap_vote :: "string \<Rightarrow> real \<Rightarrow> jsnum \<Rightarrow> slot \<Rightarrow> score \<Rightarrow> score" where
  "vwap_vote tfName tfWeight currentPrice vw st =
     (if vw \<noteq> SNull then
        (let st1 = (if jgt currentPrice (toNumber vw)
                    then bullish_vote (1 * tfWeight)
                           (tfName @ '': Price > VWAP ('' @ decimal VWAP_PERIOD @ '')'') st
                    else st)
         in if jlt currentPrice (toNumber vw)
            then bearish_vote (1 * tfWeight)
                   (tfName @ '': Price < VWAP ('' @ decimal VWAP_PERIOD @ '')'') st1
            else st1)
      else st)"

text \<open>
  6. OBV trend. The series is longer than the period, so its SMA is not empty and both
  last elements are numbers.
\<close>

definition obv_vote :: "string \<Rightarrow> real \<Rightarrow> jsnum list option \<Rightarrow> score \<Rightarrow> score" where
  "obv_vote tfName tfWeight obv_obj st =
     (case obv_obj of
        None \<Rightarrow> st
      | Some series \<Rightarrow>
          if VOLUME_SMA_PERIOD < length series then
            (let obvSma = calculateSMAInternal series VOLUME_SMA_PERIOD;
                 latestObv = last series;
                 latestObvSma = last obvSma
             in if jgt latestObv latestObvSma
                then bullish_vote (1 * tfWeight)
                       (tfName @ '': OBV trending up (above its '' @ decimal VOLUME_SMA_PERIOD @ ''-period SMA)'') st
                else if jlt latestObv latestObvSma
                then bearish_vote (1 * tfWeight)
                       (tfName @ '': OBV trending down (below its '' @ decimal VOLUME_SMA_PERIOD @ ''-period SMA)'') st
                else st)
          else st)"

text \<open>Truthiness of a number and of an optional message.\<close>

definition number_truthy :: "jsnum \<Rightarrow> bool" where
  "number_truthy n = (n \<noteq> Fin 0 \<and> \<not> isNaN n)"

definition message_truthy :: "string option \<Rightarrow> bool" where
  "message_truthy m = (case m of None \<Rightarrow> False | Some s \<Rightarrow> s \<noteq> [])"

record timeframe =
  tf_name :: string
  tf_data :: indicators
  tf_weight :: real

text \<open>
  The body of \<^verbatim>\<open>timeframes.forEach\<close>; \<open>currentPrice\<close> is \<open>None\<close> when it is \<open>null\<close>.
\<close>

definition score_timeframe :: "jsnum option \<Rightarrow> score \<Rightarrow> timeframe \<Rightarrow> score" where
  "score_timeframe currentPrice st tf =
     (case currentPrice of
        None \<Rightarrow> st
      | Some price \<Rightarrow>
          if message_truthy (error (tf_data tf)) \<or> \<not> number_truthy price then st
          else
            let tfName = tf_name tf;
                tfWeight = tf_weight tf;
                st1 = foldl (sma_vote tfName tfWeight price (smas (tf_data tf))) st SMA_PERIODS;
                st2 = foldl (ema_vote tfName tfWeight price (emas (tf_data tf))) st1 EMA_PERIODS;
                st3 = macd_vote tfName tfWeight (macd (tf_data tf)) st2;
                st4 = rsi_vote tfName tfWeight (rsi (tf_data tf)) st3;
                st5 = vwap_vote tfName tfWeight price (vwap (tf_data tf)) st4
            in obv_vote tfName tfWeight (obvFullSeries (tf_data tf)) st5)"

record analysisData =
  analysis_error :: "string option"
  daily :: indicators
  currentPriceForAnalysis :: "jsnum option"
  weekly :: indicators
  monthly :: indicators

definition timeframes :: "analysisData \<Rightarrow> timeframe list" where
  "timeframes ad =
     [\<lparr>tf_name = ''Daily'', tf_data = daily ad, tf_weight = 1\<rparr>,
      \<lparr>tf_name = ''Weekly'', tf_data = weekly ad, tf_weight = 1.5\<rparr>,
      \<lparr>tf_name = ''Monthly'', tf_data = monthly ad, tf_weight = 2\<rparr>]"

definition accumulate_scores :: "analysisData \<Rightarrow> score" where
  "accumulate_scores ad =
     foldl (score_timeframe (currentPriceForAnalysis ad))
       \<lparr>totalBullishScore = 0, totalBearishScore = 0, signalReasons = []\<rparr> (timeframes ad)"

definition final_signal :: "score \<Rightarrow> string" where
  "final_signal st =
     (let finalSignal =
            (if totalBearishScore st * 1.1 < totalBullishScore st then ''Bullish''
             else if totalBullishScore st * 1.1 < totalBearishScore st then ''Bearish''
             else ''Neutral'')
      in if length (signalReasons st) = 0 \<and> totalBullishScore st = 0 \<and> totalBearishScore st = 0
         then ''Not Enough Data for Signal''
         else finalSignal)"

record technicalSignal =
  signal :: string
  scores_bullish :: jsnum
  scores_bearish :: jsnum
  reasons :: "string list"

text \<open>
  The signal the effect stores with \<^verbatim>\<open>setTechnicalSignal\<close>, from the active tab and the
  analysis data (\<open>None\<close> when there is none yet).
\<close>

definition generateTechnicalSignal :: "string \<Rightarrow> analysisData option \<Rightarrow> technicalSignal" where
  "generateTechnicalSignal activeTab analysisData_opt =
     (case analysisData_opt of
        None \<Rightarrow>
          \<lparr>signal = ''Signal Pending...'', scores_bullish = Fin 0, scores_bearish = Fin 0,
           reasons = [''Waiting for data...'']\<rparr>
      | Some ad \<Rightarrow>
          if activeTab \<noteq> ''analysis'' \<or> message_truthy (analysis_error ad) then
            \<lparr>signal = (if message_truthy (analysis_error ad) then the (analysis_error ad)
                       else ''Signal Pending...''),
             scores_bullish = Fin 0, scores_bearish = Fin 0,
             reasons = [if message_truthy (analysis_error ad) then the (analysis_error ad)
                        else ''Waiting for data...'']\<rparr>
          else if message_truthy (error (daily ad)) then
            \<lparr>signal = ''Analysis Error'', scores_bullish = Fin 0, scores_bearish = Fin 0,
             reasons = [the (error (daily ad))]\<rparr>
          else if (case currentPriceForAnalysis ad of None \<Rightarrow> True | Some price \<Rightarrow> \<not> number_truthy price) then
            \<lparr>signal = ''Signal Pending...'', scores_bullish = Fin 0, scores_bearish = Fin 0,
             reasons = [''Current price not available for signal generation.'']\<rparr>
          else
            let st = accumulate_scores ad
            in \<lparr>signal = final_signal st,
                scores_bullish = toFixed_value (Fin (totalBullishScore st)) 1,
                scores_bearish = toFixed_value (Fin (totalBearishScore st)) 1,
                reasons = (if 0 < length (signalReasons st) then take 15 (signalReasons st)
                           else [''No strong directional signals based on current rules.''])\<rparr>)"

text \<open>Bundles for evaluation: an empty one, and one whose only available value is SMA 20.\<close>

definition empty_indicators :: indicators where
  "empty_indicators =
     \<lparr>error = None, smas = Some (\<lambda>p. SNull), emas = Some (\<lambda>p. SNull), rsi = None, macd = None,
      vwap = SNull, obvFullSeries = None\<rparr>"

definition only_20 :: "jsnum \<Rightarrow> nat \<Rightarrow> slot" where
  "only_20 v p = (if p = 20 then SNum v else SNull)"

definition sma20_only :: "jsnum \<Rightarrow> indicators" where
  "sma20_only v = empty_indicators\<lparr>smas := Some (only_20 v)\<rparr>"

section \<open>Reference formulas and example inputs\<close>

text \<open>
  The EMA as the specification words it, on exact reals: the seed is the simple mean of
  the first \<open>p\<close> values, and each later entry is
  \<open>ema_next = data[i] * k + ema_prev * (1 - k)\<close> with \<open>k = 2 / (p + 1)\<close> and
  \<open>i = p + j\<close> for the entry of index \<open>j + 1\<close>.
\<close>

fun ema_spec :: "real list \<Rightarrow> nat \<Rightarrow> nat \<Rightarrow> real" where
  "ema_spec xs p 0 = sum_list (take p xs) / real p"
| "ema_spec xs p (Suc j) =
     xs ! (p + j) * (2 / (real p + 1)) + ema_spec xs p j * (1 - 2 / (real p + 1))"

text \<open>
  The points of the window that ends at index \<open>i\<close> which the VWAP uses, in the order
  the inner loop visits them (\<open>i\<close>, \<open>i - 1\<close>, ...): those whose price and volume are
  both neither \<open>null\<close> nor NaN.
\<close>

definition window_points ::
  "jsnum option list \<Rightarrow> jsnum option list \<Rightarrow> nat \<Rightarrow> nat \<Rightarrow> (jsnum \<times> jsnum) list" where
  "window_points prices volumes period i =
     map (\<lambda>j. (the (prices ! (i - j)), the (volumes ! (i - j))))
       (filter (\<lambda>j. point_valid (prices ! (i - j)) \<and> point_valid (volumes ! (i - j))) [0 ..< period])"

text \<open>Four trading days for evaluation (UTC): Fri 15, Mon 18 and Tue 19 March 2024, Mon 1 April 2024.\<close>

definition sample_days :: "(int \<times> jsnum) list" where
  "sample_days =
     [(1710460800000, Fin 10), (1710720000000, Fin 11), (1710806400000, Fin 12),
      (1711929600000, Fin 13)]"


text \<open>A latest year with a net income of 50 and a revenue of 0.\<close>

definition zero_revenue_year :: yearData where
  "zero_revenue_year =
     \<lparr>incomeStatement = (\<lambda>k. if k = ''NetIncome'' then JNum (Fin 50)
                              else if k = ''Revenue'' then JNum (Fin 0) else JUndefined),
      balanceSheet = (\<lambda>k. JUndefined),
      cashFlowStatement = (\<lambda>k. JUndefined)\<rparr>"

text \<open>
  Scores never go down and every vote leaves a reason: both scores are non-negative, and
  no reason has been collected exactly when both scores are 0.
\<close>

definition score_invariant :: "score \<Rightarrow> bool" where
  "score_invariant st =
     (0 \<le> totalBullishScore st \<and> 0 \<le> totalBearishScore st \<and>
      (signalReasons st = [] \<longleftrightarrow> totalBullishScore st = 0 \<and> totalBearishScore st = 0))"

text \<open>
  An analysis for evaluation: the price is 100, the daily SMA 20 is 100 (a tie), the
  monthly SMA 20 is 90, nothing else is available.
\<close>

definition example_analysis :: analysisData where
  "example_analysis =
     \<lparr>analysis_error = None, daily = sma20_only (Fin 100),
      currentPriceForAnalysis = Some (Fin 100),
      weekly = empty_indicators, monthly = sma20_only (Fin 90)\<rparr>"
















section \<open>Properties\<close>

subsection \<open>RSI\<close>

lemma rsi_fold_length:
  "length (rsiValues (foldl (rsi_step data period) st is)) = length (rsiValues st) + length is"
  by (induction "is" arbitrary: st) (simp_all add: rsi_step_def Let_def)

text \<open>
  C1 (as amended). RSI returns the empty array when \<open>data.length < period + 1\<close>; when
  \<open>data.length \<ge> period + 1\<close> it returns an array of length \<open>data.length - period - 1\<close>:
  the initial averages over the first \<open>period\<close> changes produce no output value, one value
  is pushed for each later data point.
\<close>

theorem rsi_length:
  "(length data < period + 1 \<longrightarrow> calculateRSIInternal data period = []) \<and>
   (period + 1 \<le> length data \<longrightarrow>
      length (calculateRSIInternal data period) = length data - period - 1)"
  by (simp add: calculateRSIInternal_def Let_def rsi_fold_length)

theorem rsi_length_witness:
  "length [Fin 3] < (1::nat) + 1 \<and> calculateRSIInternal [Fin 3] 1 = [] \<and>
   (1::nat) + 1 \<le> length [Fin 1, Fin 2, Fin 4] \<and>
   length (calculateRSIInternal [Fin 1, Fin 2, Fin 4] 1) = 1"
  using rsi_length [of "[Fin 3]" 1] rsi_length [of "[Fin 1, Fin 2, Fin 4]" 1] by simp

text \<open>
  C1 (as stated) fails: two data points with period 1 satisfy \<open>data.length \<ge> period + 1\<close>,
  and the result is empty, not of length \<open>data.length - period = 1\<close>.
\<close>

theorem rsi_length_counterexample:
  "1 + 1 \<le> length [Fin 1, Fin 2] \<and>
   calculateRSIInternal [Fin 1, Fin 2] 1 = [] \<and>
   length (calculateRSIInternal [Fin 1, Fin 2] 1) \<noteq> length [Fin 1, Fin 2] - 1"
  by (simp add: calculateRSIInternal_def)

subsection \<open>Sums and slices of finite numbers\<close>

lemma foldl_jadd_Fin: "foldl jadd (Fin a) (map Fin xs) = Fin (a + sum_list xs)"
  by (induction xs arbitrary: a) (simp_all add: add.assoc)

lemma jsum_Fin: "jsum (map Fin xs) = Fin (sum_list xs)"
  by (simp add: jsum_def foldl_jadd_Fin)

lemma slice_map: "slice (map f xs) s e = map f (slice xs s e)"
  by (simp add: slice_def take_map drop_map)

lemma slice_0: "slice xs 0 e = take e xs"
  by (simp add: slice_def)

subsection \<open>EMA\<close>

lemma ema_loop_length: "length (ema_loop k c ys) = length ys"
  by (induction ys arbitrary: c) (simp_all add: Let_def)

lemma ema_length:
  "period \<le> length data \<Longrightarrow> length (calculateEMAInternal data period) = length data - period + 1"
  by (simp add: calculateEMAInternal_def Let_def ema_loop_length)

text \<open>One step of the loop on finite numbers: entry \<open>j + 1\<close> from entry \<open>j\<close>.\<close>

lemma ema_loop_step:
  "j < length ys \<Longrightarrow>
   \<exists>r. (Fin c # ema_loop (Fin k) (Fin c) (map Fin ys)) ! j = Fin r \<and>
       (Fin c # ema_loop (Fin k) (Fin c) (map Fin ys)) ! Suc j = Fin (ys ! j * k + r * (1 - k))"
proof (induction ys arbitrary: c j)
  case Nil
  then show ?case by simp
next
  case (Cons y ys)
  show ?case
  proof (cases j)
    case 0
    then show ?thesis by (simp add: Let_def jsub_def)
  next
    case (Suc j')
    with Cons.prems have "j' < length ys" by simp
    from Cons.IH [OF this, of "y * k + c * (1 - k)"] Suc show ?thesis
      by (simp add: Let_def jsub_def)
  qed
qed

lemma ema_nth:
  assumes "period \<le> length xs" "0 < period" "j \<le> length xs - period"
  shows "calculateEMAInternal (map Fin xs) period ! j = Fin (ema_spec xs period j)"
  using assms(3)
proof (induction j)
  case 0
  from assms(1,2) show ?case
    by (simp add: calculateEMAInternal_def Let_def slice_map jsum_Fin slice_0 take_map)
next
  case (Suc j)
  then have j: "j < length (drop period xs)" by simp
  have ne: "real period + 1 \<noteq> 0"
    by (metis add_nonneg_pos of_nat_0_le_iff less_numeral_extra(1) less_irrefl)
  let ?c = "sum_list (take period xs) / real period"
  let ?k = "2 / (real period + 1)"
  have unf: "calculateEMAInternal (map Fin xs) period =
      Fin ?c # ema_loop (Fin ?k) (Fin ?c) (map Fin (drop period xs))"
    using assms(1,2) ne
    by (simp add: calculateEMAInternal_def Let_def slice_map jsum_Fin slice_0 drop_map take_map)
  from ema_loop_step [OF j, of ?c ?k] obtain r where
    r: "(Fin ?c # ema_loop (Fin ?k) (Fin ?c) (map Fin (drop period xs))) ! j = Fin r"
    and s: "(Fin ?c # ema_loop (Fin ?k) (Fin ?c) (map Fin (drop period xs))) ! Suc j =
            Fin (drop period xs ! j * ?k + r * (1 - ?k))"
    by blast
  from Suc have "calculateEMAInternal (map Fin xs) period ! j = Fin (ema_spec xs period j)" by simp
  with r unf have "r = ema_spec xs period j" by simp
  with s unf assms(1) show ?case by (simp add: add.commute)
qed

text \<open>
  C4. For a numeric array with \<open>data.length \<ge> period\<close>, EMA returns
  \<open>data.length - period + 1\<close> entries; for a period of at least 1 the first is the simple
  mean of \<open>data[0 .. period - 1]\<close> and each later one is
  \<open>data[i] * k + ema_prev * (1 - k)\<close> with \<open>k = 2 / (period + 1)\<close>, that is, entry \<open>j\<close>
  is \<open>ema_spec data period j\<close>; and \<open>EMA([1,2,3,4,5], 3) = [2, 3, 4]\<close>.
\<close>

theorem ema_recurrence:
  assumes "period \<le> length xs"
  shows "length (calculateEMAInternal (map Fin xs) period) = length xs - period + 1 \<and>
         (0 < period \<longrightarrow>
            calculateEMAInternal (map Fin xs) period =
              map (\<lambda>j. Fin (ema_spec xs period j)) [0 ..< length xs - period + 1]) \<and>
         calculateEMAInternal (map Fin [1, 2, 3, 4, 5]) 3 = [Fin 2, Fin 3, Fin 4]"
proof (intro conjI impI)
  show len: "length (calculateEMAInternal (map Fin xs) period) = length xs - period + 1"
    using assms by (simp add: ema_length)
  show "calculateEMAInternal (map Fin xs) period =
           map (\<lambda>j. Fin (ema_spec xs period j)) [0 ..< length xs - period + 1]"
    if pos: "0 < period"
  proof (rule nth_equalityI)
    show "length (calculateEMAInternal (map Fin xs) period) =
          length (map (\<lambda>j. Fin (ema_spec xs period j)) [0 ..< length xs - period + 1])"
      using len by simp
  next
    fix i assume "i < length (calculateEMAInternal (map Fin xs) period)"
    with len have i: "i \<le> length xs - period" by simp
    then show "calculateEMAInternal (map Fin xs) period ! i =
               map (\<lambda>j. Fin (ema_spec xs period j)) [0 ..< length xs - period + 1] ! i"
      using ema_nth [OF assms pos i] by (simp del: upt_Suc)
  qed
  show "calculateEMAInternal (map Fin [1, 2, 3, 4, 5]) 3 = [Fin 2, Fin 3, Fin 4]"
    by (simp add: calculateEMAInternal_def Let_def jsum_def slice_def jsub_def)
qed

theorem ema_recurrence_witness:
  "(3::nat) \<le> length [1, 2, 3, 4, 5::real] \<and> (0::nat) < 3 \<and>
   length (calculateEMAInternal (map Fin [1, 2, 3, 4, 5]) 3) = 3 \<and>
   calculateEMAInternal (map Fin [1, 2, 3, 4, 5]) 3 =
     [Fin (ema_spec [1, 2, 3, 4, 5] 3 0), Fin (ema_spec [1, 2, 3, 4, 5] 3 1),
      Fin (ema_spec [1, 2, 3, 4, 5] 3 2)] \<and>
   ema_spec [1, 2, 3, 4, 5] 3 0 = 2 \<and> ema_spec [1, 2, 3, 4, 5] 3 1 = 3 \<and>
   ema_spec [1, 2, 3, 4, 5] 3 2 = 4"
proof -
  have h1: "(3::nat) \<le> length [1, 2, 3, 4, 5::real]" by simp
  have u: "[0 ..< length [1, 2, 3, 4, 5::real] - 3 + 1] = [0, 1, 2]"
    by (simp add: upt_rec)
  have e0: "ema_spec [1, 2, 3, 4, 5] 3 0 = 2" by simp
  have e1: "ema_spec [1, 2, 3, 4, 5] 3 1 = 3"
    using e0 by (simp add: numeral_3_eq_3 del: ema_spec.simps(1))
  have e2: "ema_spec [1, 2, 3, 4, 5] 3 2 = 4"
    using e1 by (simp add: numeral_2_eq_2 numeral_3_eq_3 del: ema_spec.simps(1))
  from ema_recurrence [OF h1] u show ?thesis using e0 e1 e2 by simp
qed

subsection \<open>Bollinger Bands\<close>

lemma jsub_Fin: "jsub (Fin a) (Fin b) = Fin (a - b)"
  by (simp add: jsub_def)

lemma jpow_two: "jpow (Fin d) (Fin 2) = Fin (d ^ 2)"
proof -
  have "\<lfloor>2::real\<rfloor> = 2" by simp
  then show ?thesis
    by (cases "d = 0"; cases "0 < d") (simp_all add: pow_fin_def is_integer_def)
qed

lemma foldl_sq_Fin:
  "foldl (\<lambda>acc val. jadd acc (jpow (jsub val (Fin m)) (Fin 2))) (Fin a) (map Fin ys) =
   Fin (a + (\<Sum>y\<leftarrow>ys. (y - m) ^ 2))"
  by (induction ys arbitrary: a) (simp_all add: jsub_Fin jpow_two add.assoc del: jpow.simps)

lemma sma_at_Fin:
  "0 < period \<Longrightarrow>
   sma_at (map Fin xs) period i =
     Fin (sum_list (slice xs (nat (i - int period + 1)) (nat (i + 1))) / real period)"
  by (simp add: sma_at_def Let_def slice_map jsum_Fin)

text \<open>The variance of finite numbers is not negative, so its square root is a number.\<close>

lemma stddev_at_Fin:
  assumes "0 < period"
  shows "\<exists>sd. stddev_at (map Fin xs) period i = Fin sd"
proof -
  let ?sl = "slice xs (nat (i - int period + 1)) (nat (i + 1))"
  let ?m = "sum_list ?sl / real period"
  let ?v = "(\<Sum>y\<leftarrow>?sl. (y - ?m) ^ 2) / real period"
  have "0 \<le> (\<Sum>y\<leftarrow>?sl. (y - ?m) ^ 2)" by (rule sum_list_nonneg) auto
  then have "0 \<le> ?v" using assms by simp
  then have "stddev_at (map Fin xs) period i = Fin (sqrt ?v)"
    using assms
    by (simp add: stddev_at_def Let_def slice_map jsum_Fin foldl_sq_Fin not_less del: jpow.simps)
  then show ?thesis by blast
qed

lemma sma_length:
  "period \<le> length data \<Longrightarrow> length (calculateSMAInternal data period) = length data - period + 1"
  by (auto simp add: calculateSMAInternal_def)

lemma sma_nth:
  "period \<le> length data \<Longrightarrow> i < length data - period + 1 \<Longrightarrow>
   calculateSMAInternal data period ! i = sma_at data period (int period - 1 + int i)"
  by (simp add: calculateSMAInternal_def)

lemma stddev_nth:
  "period \<le> length data \<Longrightarrow> i < length data - period + 1 \<Longrightarrow>
   calculateStandardDeviationInternal data period ! i = stddev_at data period (int period - 1 + int i)"
  by (simp add: calculateStandardDeviationInternal_def)

text \<open>
  C9. For a numeric array with \<open>data.length \<ge> period\<close> (a period of at least 1) and
  every \<open>k\<close>, the three bands have the same length, every entry is a finite number,
  \<open>upper[i] = middle[i] + k * stddev[i]\<close>, \<open>lower[i] = middle[i] - k * stddev[i]\<close>, and so
  \<open>upper[i] - middle[i] = middle[i] - lower[i]\<close> exactly.
\<close>

theorem bollinger_symmetric:
  assumes "period \<le> length xs" "0 < period"
  shows "let bb = calculateBollingerBandsInternal (map Fin xs) period (Fin k)
         in length (upper bb) = length (middle bb) \<and> length (lower bb) = length (middle bb) \<and>
            length (middle bb) = length xs - period + 1 \<and>
            (\<forall>i < length (middle bb).
               \<exists>u m l sd. upper bb ! i = Fin u \<and> middle bb ! i = Fin m \<and> lower bb ! i = Fin l \<and>
                 calculateStandardDeviationInternal (map Fin xs) period ! i = Fin sd \<and>
                 u = m + k * sd \<and> l = m - k * sd \<and> u - m = m - l)"
proof -
  let ?data = "map Fin xs"
  have len: "length (calculateSMAInternal ?data period) = length xs - period + 1"
    using assms(1) by (simp add: sma_length)
  have pt: "\<exists>u m l sd.
      jadd (calculateSMAInternal ?data period ! i)
           (jmul (calculateStandardDeviationInternal ?data period ! i) (Fin k)) = Fin u \<and>
      calculateSMAInternal ?data period ! i = Fin m \<and>
      jsub (calculateSMAInternal ?data period ! i)
           (jmul (calculateStandardDeviationInternal ?data period ! i) (Fin k)) = Fin l \<and>
      calculateStandardDeviationInternal ?data period ! i = Fin sd \<and>
      u = m + k * sd \<and> l = m - k * sd \<and> u - m = m - l"
    if i: "i < length xs - period + 1" for i
  proof -
    from stddev_at_Fin [OF assms(2), of xs "int period - 1 + int i"] obtain sd where
      sd: "stddev_at ?data period (int period - 1 + int i) = Fin sd" by blast
    have m: "calculateSMAInternal ?data period ! i =
             Fin (sum_list (slice xs (nat (int period - 1 + int i - int period + 1))
                                   (nat (int period - 1 + int i + 1))) / real period)"
      using assms i by (simp add: sma_nth sma_at_Fin)
    have s: "calculateStandardDeviationInternal ?data period ! i = Fin sd"
      using assms i sd by (simp add: stddev_nth)
    show ?thesis unfolding m s by (simp add: jsub_def mult.commute)
  qed
  show ?thesis
    using assms(1) len pt
    by (simp add: calculateBollingerBandsInternal_def Let_def del: upt_Suc)
qed

theorem bollinger_symmetric_witness:
  "(2::nat) \<le> length [1, 3::real] \<and> (0::nat) < 2 \<and>
   0 < length (middle (calculateBollingerBandsInternal (map Fin [1, 3]) 2 (Fin 2))) \<and>
   upper (calculateBollingerBandsInternal (map Fin [1, 3]) 2 (Fin 2)) ! 0 = Fin 4 \<and>
   middle (calculateBollingerBandsInternal (map Fin [1, 3]) 2 (Fin 2)) ! 0 = Fin 2 \<and>
   lower (calculateBollingerBandsInternal (map Fin [1, 3]) 2 (Fin 2)) ! 0 = Fin 0 \<and>
   (4::real) - 2 = 2 - 0"
proof -
  have h1: "(2::nat) \<le> length [1, 3::real]" and h2: "(0::nat) < 2" by simp_all
  have sm: "calculateSMAInternal [Fin 1, Fin 3] 2 = [Fin 2]"
    by (simp add: calculateSMAInternal_def upto.simps sma_at_def slice_def jsum_def)
  have sd: "calculateStandardDeviationInternal [Fin 1, Fin 3] 2 = [Fin 1]"
    by (simp add: calculateStandardDeviationInternal_def upto.simps stddev_at_def slice_def jsum_def
        jsub_Fin jpow_two del: jpow.simps)
  have bb: "calculateBollingerBandsInternal (map Fin [1, 3]) 2 (Fin 2) =
            \<lparr>upper = [Fin 4], middle = [Fin 2], lower = [Fin 0]\<rparr>"
    by (simp add: calculateBollingerBandsInternal_def sm sd jsub_Fin Let_def)
  from bollinger_symmetric [OF h1 h2, of 2] bb show ?thesis by simp
qed

subsection \<open>Rolling VWAP\<close>

lemma vwap_inner_fold:
  "foldl (vwap_inner prices volumes i) (a, b) js =
     (foldl jadd a (map (\<lambda>j. jmul (the (prices ! (i - j))) (the (volumes ! (i - j))))
                     (filter (\<lambda>j. point_valid (prices ! (i - j)) \<and> point_valid (volumes ! (i - j))) js)),
      foldl jadd b (map (\<lambda>j. the (volumes ! (i - j)))
                     (filter (\<lambda>j. point_valid (prices ! (i - j)) \<and> point_valid (volumes ! (i - j))) js)))"
  by (induction js arbitrary: a b) (simp_all add: vwap_inner_def Let_def)

lemma vwap_at_window:
  "vwap_at prices volumes period i =
     (let pts = window_points prices volumes period i;
          sumVolume = jsum (map snd pts)
      in if jgt sumVolume (Fin 0)
         then Some (jdiv (jsum (map (\<lambda>(p, v). jmul p v) pts)) sumVolume)
         else None)"
  by (simp add: vwap_at_def vwap_inner_fold window_points_def jsum_def Let_def comp_def)

lemma update_fold_length:
  "length (foldl (\<lambda>vs i. vs[i := f i]) init is) = length init"
  by (induction "is" arbitrary: init) simp_all

lemma update_fold_nth:
  "i < length init \<Longrightarrow>
   foldl (\<lambda>vs i. vs[i := f i]) init is ! i = (if i \<in> set is then f i else init ! i)"
  by (induction "is" arbitrary: init) (auto simp add: nth_list_update)

text \<open>
  C7 (as amended). For equal-length arrays with \<open>n = prices.length \<ge> period\<close>, the
  rolling VWAP has length \<open>n\<close>, is \<open>null\<close> at every index below \<open>period - 1\<close>, and at every
  index \<open>i \<ge> period - 1\<close> is computed over the valid points of the trailing window only
  (a point whose price or volume is \<open>null\<close> or NaN is skipped, it does not null the
  output): the sum of \<open>price * volume\<close> over these points divided by the sum of their
  volumes, and \<open>null\<close> when that volume sum is not greater than 0.
\<close>

theorem vwap_skips_invalid_points:
  assumes "length prices = length volumes" "period \<le> length prices"
  shows "length (calculateRollingVWAPInternal prices volumes period) = length prices \<and>
         (\<forall>i < length prices.
            calculateRollingVWAPInternal prices volumes period ! i =
              (if i < period - 1 then None
               else
                 let pts = window_points prices volumes period i;
                     sumVolume = jsum (map snd pts)
                 in if jgt sumVolume (Fin 0)
                    then Some (jdiv (jsum (map (\<lambda>(p, v). jmul p v) pts)) sumVolume)
                    else None))"
  using assms
  by (auto simp add: calculateRollingVWAPInternal_def update_fold_length update_fold_nth
      vwap_at_window simp del: upt_Suc)

theorem vwap_skips_invalid_points_witness:
  "length [Some (Fin 10), None] = length [Some (Fin 2), Some (Fin 3)] \<and>
   (2::nat) \<le> length [Some (Fin 10), None :: jsnum option] \<and>
   (1::nat) < length [Some (Fin 10), None :: jsnum option] \<and>
   window_points [Some (Fin 10), None] [Some (Fin 2), Some (Fin 3)] 2 1 = [(Fin 10, Fin 2)] \<and>
   calculateRollingVWAPInternal [Some (Fin 10), None] [Some (Fin 2), Some (Fin 3)] 2 ! 1 = Some (Fin 10) \<and>
   calculateRollingVWAPInternal [Some (Fin 10), None] [Some (Fin 2), Some (Fin 3)] 2 ! 0 = None"
proof -
  have h1: "length [Some (Fin 10), None] = length [Some (Fin 2), Some (Fin 3)]" by simp
  have h2: "(2::nat) \<le> length [Some (Fin 10), None :: jsnum option]" by simp
  have w: "window_points [Some (Fin 10), None] [Some (Fin 2), Some (Fin 3)] 2 1 = [(Fin 10, Fin 2)]"
    by (simp add: window_points_def point_valid_def upt_rec)
  from vwap_skips_invalid_points [OF h1 h2] w show ?thesis
    by (simp add: jsum_def jgt_def)
qed

text \<open>
  C7 (as stated) fails: with period 2, the window that ends at index 1 contains a \<open>null\<close>
  price, and the output there is 10, not \<open>null\<close>.
\<close>

theorem vwap_invalid_point_counterexample:
  "[Some (Fin 10), None] ! 1 = None \<and>
   calculateRollingVWAPInternal [Some (Fin 10), None] [Some (Fin 2), Some (Fin 3)] 2 ! 1 = Some (Fin 10)"
  by (simp add: calculateRollingVWAPInternal_def vwap_at_def vwap_inner_def point_valid_def jgt_def upt_rec)

subsection \<open>Resampling and volume sums\<close>

text \<open>Rounding changes no natural number up to \<open>2\<^sup>5\<^sup>3\<close>.\<close>

lemma round_half_even_int: "round_half_even (of_int m) = m"
  by (simp add: round_half_even_def)

lemma pow2_nonpos: "e \<le> 0 \<Longrightarrow> pow2 e = 1 / 2 ^ nat (- e)"
  by (auto simp add: pow2_def)

lemma round_double_nat:
  assumes "n \<le> 2 ^ 53"
  shows "round_double (real n) = Fin (real n)"
proof (cases "n = 0")
  case True
  then show ?thesis by (simp add: round_double_def)
next
  case False
  then have pos: "0 < int n" by simp
  define b where "b = bitlen (int n)"
  from bitlen_bounds [OF pos] have lo: "2 ^ nat (b - 1) \<le> int n" and hi: "int n < 2 ^ nat b"
    by (simp_all add: b_def)
  have b1: "1 \<le> b" using pos by (simp add: b_def bitlen_alt_def)
  have ex: "binary_exponent (real n) = b - 1"
    using False by (simp add: binary_exponent_def b_def)
  have "(2::int) ^ nat (b - 1) \<le> 2 ^ 53" using lo assms
    by (metis (mono_tags) of_nat_le_iff of_nat_numeral of_nat_power order_trans)
  then have "nat (b - 1) \<le> 53"
    by (rule power_le_imp_le_exp [rotated]) simp
  then have b54: "b \<le> 54" by simp
  define q where "q = pow2 (max (b - 1) (- 1022) - 52)"
  have y: "real_of_int (round_half_even (real n / q)) * q = real n"
  proof (cases "b \<le> 53")
    case True
    have "max (b - 1) (- 1022) - 52 = - (53 - b)" using b1 by simp
    moreover have "- (53 - b) \<le> 0" using True by simp
    ultimately have q: "q = 1 / 2 ^ nat (53 - b)"
      unfolding q_def using pow2_nonpos [of "- (53 - b)"] by simp
    have "real n / q = of_int (int n * 2 ^ nat (53 - b))"
      by (simp add: q)
    then have "round_half_even (real n / q) = int n * 2 ^ nat (53 - b)"
      by (simp only: round_half_even_int)
    then show ?thesis by (simp add: q)
  next
    case False
    with b54 have b: "b = 54" by simp
    have q: "q = 2" unfolding q_def b by (simp add: pow2_def)
    from lo b have "(2::int) ^ 53 \<le> int n" by simp
    then have "(2::nat) ^ 53 \<le> n"
      by (metis of_nat_le_iff of_nat_numeral of_nat_power)
    with assms have n: "n = 2 ^ 53" by simp
    have "real n / q = of_int (2 ^ 52)"
      by (simp add: q n)
    then have "round_half_even (real n / q) = 2 ^ 52"
      by (simp only: round_half_even_int)
    then show ?thesis by (simp add: q n)
  qed
  have "real n < pow2 1024"
  proof -
    have "real n \<le> 2 ^ 53" using assms
      by (metis of_nat_le_iff of_nat_numeral of_nat_power)
    also have "\<dots> < (2::real) ^ 1024" by (simp add: power_strict_increasing_iff)
    finally show ?thesis by (simp add: pow2_def)
  qed
  with y ex False show ?thesis
    by (simp add: round_double_def Let_def q_def)
qed

lemma dadd_nat:
  "a + b \<le> 2 ^ 53 \<Longrightarrow> dadd (Fin (real a)) (Fin (real b)) = Fin (real (a + b))"
  using round_double_nat [of "a + b"] by simp

lemma foldl_dadd_nat:
  "a + sum_list ns \<le> 2 ^ 53 \<Longrightarrow>
   foldl dadd (Fin (real a)) (map (\<lambda>n. Fin (real n)) ns) = Fin (real (a + sum_list ns))"
proof (induction ns arbitrary: a)
  case Nil
  then show ?case by simp
next
  case (Cons n ns)
  then have "a + n \<le> 2 ^ 53" and "(a + n) + sum_list ns \<le> 2 ^ 53" by simp_all
  with Cons.IH [of "a + n"] show ?case by (simp add: dadd_nat add.assoc del: dadd.simps)
qed

lemma dsum_nat:
  "sum_list ns \<le> 2 ^ 53 \<Longrightarrow> dsum (map (\<lambda>n. Fin (real n)) ns) = Fin (real (sum_list ns))"
  using foldl_dadd_nat [of 0 ns] by (simp add: dsum_def)

text \<open>
  The loop invariant: what has been emitted, plus the running sum, plus what is still to
  come, is emitted in the end, since the last day always closes its bucket; every sum on
  the way is a natural number below the bound, hence exact.
\<close>

lemma weekly_loop_volume:
  "rest \<noteq> [] \<Longrightarrow> map snd rest = map (\<lambda>n. Fin (real n)) ns \<Longrightarrow>
   currentWeekVolumeSum st = Fin (real c) \<Longrightarrow>
   weeklyVolumes (weeklyOut st) = map (\<lambda>n. Fin (real n)) ws \<Longrightarrow>
   c + sum_list ns \<le> 2 ^ 53 \<Longrightarrow>
   \<exists>ws'. weeklyVolumes (weeklyOut (weekly_loop cal rest st)) = map (\<lambda>n. Fin (real n)) ws' \<and>
         sum_list ws' = sum_list ws + c + sum_list ns"
proof (induction rest arbitrary: st ns c ws)
  case Nil
  then show ?case by simp
next
  case (Cons x rest)
  obtain timestamp price volume where x: "x = ((timestamp, price), volume)"
    by (metis surj_pair)
  from Cons.prems(2) x obtain n ns' where ns: "ns = n # ns'" and v: "volume = Fin (real n)"
    and rest_ns: "map snd rest = map (\<lambda>n. Fin (real n)) ns'"
    by (cases ns) auto
  from Cons.prems(5) ns have cn: "c + n \<le> 2 ^ 53" and tot: "(c + n) + sum_list ns' \<le> 2 ^ 53"
    by simp_all
  have sum: "dadd (currentWeekVolumeSum st) volume = Fin (real (c + n))"
    using Cons.prems(3) v cn by (simp add: dadd_nat del: dadd.simps)
  show ?case
  proof (cases "rest = []")
    case True
    with rest_ns have e: "ns' = []" by simp
    from True x sum Cons.prems(4)
    have "weeklyVolumes (weeklyOut (weekly_loop cal (x # rest) st)) = map (\<lambda>n. Fin (real n)) (ws @ [c + n])"
      by (simp add: Let_def del: dadd.simps)
    moreover have "sum_list (ws @ [c + n]) = sum_list ws + c + sum_list ns"
      using ns e by simp
    ultimately show ?thesis by blast
  next
    case False
    let ?start = "case currentWeekStartTime st of None \<Rightarrow> weekStart cal timestamp | Some t \<Rightarrow> t"
    let ?new = "case rest of [] \<Rightarrow> False
                | ((nextTimestamp, _), _) # _ \<Rightarrow> ?start + 7 * 24 * 60 * 60 * 1000 \<le> startOfDay cal nextTimestamp"
    show ?thesis
    proof (cases ?new)
      case True
      let ?st' = "\<lparr>currentWeekStartTime = None, currentWeekClose = None,
                 currentWeekVolumeSum = Fin 0,
                 weeklyOut =
                   \<lparr>weeklyTimestamps = weeklyTimestamps (weeklyOut st) @ [?start],
                    weeklyPrices = weeklyPrices (weeklyOut st) @ [price],
                    weeklyVolumes = weeklyVolumes (weeklyOut st) @ [dadd (currentWeekVolumeSum st) volume]\<rparr>\<rparr>"
      have step: "weekly_loop cal (x # rest) st = weekly_loop cal rest ?st'"
        using True x by (simp add: Let_def del: dadd.simps)
      have out: "weeklyVolumes (weeklyOut ?st') = map (\<lambda>n. Fin (real n)) (ws @ [c + n])"
        using Cons.prems(4) sum by simp
      have cur: "currentWeekVolumeSum ?st' = Fin (real (0::nat))" by simp
      have bound: "0 + sum_list ns' \<le> 2 ^ 53" using tot by simp
      from Cons.IH [OF False rest_ns cur out bound] step ns show ?thesis by auto
    next
      case nn: False
      let ?st' = "\<lparr>currentWeekStartTime = Some ?start, currentWeekClose = Some price,
                 currentWeekVolumeSum = dadd (currentWeekVolumeSum st) volume, weeklyOut = weeklyOut st\<rparr>"
      have step: "weekly_loop cal (x # rest) st = weekly_loop cal rest ?st'"
        using nn False x by (simp add: Let_def del: dadd.simps)
      have cur: "currentWeekVolumeSum ?st' = Fin (real (c + n))"
        using sum by simp
      have out: "weeklyVolumes (weeklyOut ?st') = map (\<lambda>n. Fin (real n)) ws"
        using Cons.prems(4) by simp
      from Cons.IH [OF False rest_ns cur out tot] step ns show ?thesis by auto
    qed
  qed
qed

lemma monthly_loop_volume:
  "rest \<noteq> [] \<Longrightarrow> map snd rest = map (\<lambda>n. Fin (real n)) ns \<Longrightarrow>
   currentMonthVolumeSum st = Fin (real c) \<Longrightarrow>
   monthlyVolumes (monthlyOut st) = map (\<lambda>n. Fin (real n)) ws \<Longrightarrow>
   c + sum_list ns \<le> 2 ^ 53 \<Longrightarrow>
   \<exists>ws'. monthlyVolumes (monthlyOut (monthly_loop cal rest st)) = map (\<lambda>n. Fin (real n)) ws' \<and>
         sum_list ws' = sum_list ws + c + sum_list ns"
proof (induction rest arbitrary: st ns c ws)
  case Nil
  then show ?case by simp
next
  case (Cons x rest)
  obtain timestamp price volume where x: "x = ((timestamp, price), volume)"
    by (metis surj_pair)
  from Cons.prems(2) x obtain n ns' where ns: "ns = n # ns'" and v: "volume = Fin (real n)"
    and rest_ns: "map snd rest = map (\<lambda>n. Fin (real n)) ns'"
    by (cases ns) auto
  from Cons.prems(5) ns have cn: "c + n \<le> 2 ^ 53" and tot: "(c + n) + sum_list ns' \<le> 2 ^ 53"
    by simp_all
  have sum: "dadd (currentMonthVolumeSum st) volume = Fin (real (c + n))"
    using Cons.prems(3) v cn by (simp add: dadd_nat del: dadd.simps)
  show ?case
  proof (cases "rest = []")
    case True
    with rest_ns have e: "ns' = []" by simp
    from True x sum Cons.prems(4)
    have "monthlyVolumes (monthlyOut (monthly_loop cal (x # rest) st)) = map (\<lambda>n. Fin (real n)) (ws @ [c + n])"
      by (simp add: Let_def del: dadd.simps)
    moreover have "sum_list (ws @ [c + n]) = sum_list ws + c + sum_list ns"
      using ns e by simp
    ultimately show ?thesis by blast
  next
    case False
    let ?start = "case currentMonthStartTime st of None \<Rightarrow> monthStart cal (fullYear cal timestamp) (monthOf cal timestamp) | Some t \<Rightarrow> t"
    let ?new = "case rest of [] \<Rightarrow> False
                | ((nextTimestamp, _), _) # _ \<Rightarrow> fullYear cal ?start < fullYear cal nextTimestamp \<or> monthOf cal ?start < monthOf cal nextTimestamp"
    show ?thesis
    proof (cases ?new)
      case True
      let ?st' = "\<lparr>currentMonthStartTime = None, currentMonthClose = None,
                 currentMonthVolumeSum = Fin 0,
                 monthlyOut =
                   \<lparr>monthlyTimestamps = monthlyTimestamps (monthlyOut st) @ [?start],
                    monthlyPrices = monthlyPrices (monthlyOut st) @ [price],
                    monthlyVolumes = monthlyVolumes (monthlyOut st) @ [dadd (currentMonthVolumeSum st) volume]\<rparr>\<rparr>"
      have step: "monthly_loop cal (x # rest) st = monthly_loop cal rest ?st'"
        using True x by (simp add: Let_def del: dadd.simps)
      have out: "monthlyVolumes (monthlyOut ?st') = map (\<lambda>n. Fin (real n)) (ws @ [c + n])"
        using Cons.prems(4) sum by simp
      have cur: "currentMonthVolumeSum ?st' = Fin (real (0::nat))" by simp
      have bound: "0 + sum_list ns' \<le> 2 ^ 53" using tot by simp
      from Cons.IH [OF False rest_ns cur out bound] step ns show ?thesis by auto
    next
      case nn: False
      let ?st' = "\<lparr>currentMonthStartTime = Some ?start, currentMonthClose = Some price,
                 currentMonthVolumeSum = dadd (currentMonthVolumeSum st) volume, monthlyOut = monthlyOut st\<rparr>"
      have step: "monthly_loop cal (x # rest) st = monthly_loop cal rest ?st'"
        using nn False x by (simp add: Let_def del: dadd.simps)
      have cur: "currentMonthVolumeSum ?st' = Fin (real (c + n))"
        using sum by simp
      have out: "monthlyVolumes (monthlyOut ?st') = map (\<lambda>n. Fin (real n)) ws"
        using Cons.prems(4) by simp
      from Cons.IH [OF False rest_ns cur out tot] step ns show ?thesis by auto
    qed
  qed
qed

text \<open>
  C8 (as amended). For every non-empty daily series whose price and volume arrays have
  equal length and whose volumes are non-negative whole numbers with a total of at most
  \<open>2\<^sup>5\<^sup>3\<close> (so that every sum of doubles on the way is exact), the sum of the weekly
  volumes equals the sum of the daily volumes, and the sum of the monthly volumes equals
  the sum of the daily volumes, whatever calendar the host provides.
\<close>

theorem resample_volume_conservation:
  assumes "length dailyPricesWithTimestamps = length ns" "dailyPricesWithTimestamps \<noteq> []"
    "sum_list ns \<le> 2 ^ 53"
  shows "dsum (weeklyVolumes (resampleToWeeklyInternal cal dailyPricesWithTimestamps
                                (map (\<lambda>n. Fin (real n)) ns)))
           = dsum (map (\<lambda>n. Fin (real n)) ns) \<and>
         dsum (monthlyVolumes (resampleToMonthlyInternal cal dailyPricesWithTimestamps
                                 (map (\<lambda>n. Fin (real n)) ns)))
           = dsum (map (\<lambda>n. Fin (real n)) ns) \<and>
         dsum (map (\<lambda>n. Fin (real n)) ns) = Fin (real (sum_list ns))"
proof -
  let ?vs = "map (\<lambda>n. Fin (real n)) ns"
  let ?rest = "zip dailyPricesWithTimestamps ?vs"
  have ne: "?rest \<noteq> []" using assms by (cases dailyPricesWithTimestamps; cases ns) auto
  have sn: "map snd ?rest = ?vs" using assms(1) by simp
  have b: "0 + sum_list ns \<le> 2 ^ 53" using assms(3) by simp
  let ?w0 = "\<lparr>currentWeekStartTime = None, currentWeekClose = None,
              currentWeekVolumeSum = Fin 0,
              weeklyOut = \<lparr>weeklyTimestamps = [], weeklyPrices = [], weeklyVolumes = []\<rparr>\<rparr>"
  let ?m0 = "\<lparr>currentMonthStartTime = None, currentMonthClose = None,
              currentMonthVolumeSum = Fin 0,
              monthlyOut = \<lparr>monthlyTimestamps = [], monthlyPrices = [], monthlyVolumes = []\<rparr>\<rparr>"
  have w0: "currentWeekVolumeSum ?w0 = Fin (real (0::nat))"
    "weeklyVolumes (weeklyOut ?w0) = map (\<lambda>n. Fin (real n)) []" by simp_all
  have m0: "currentMonthVolumeSum ?m0 = Fin (real (0::nat))"
    "monthlyVolumes (monthlyOut ?m0) = map (\<lambda>n. Fin (real n)) []" by simp_all
  from weekly_loop_volume [OF ne sn w0 b, of cal] obtain ws where
    ws: "weeklyVolumes (weeklyOut (weekly_loop cal ?rest ?w0)) = map (\<lambda>n. Fin (real n)) ws"
        "sum_list ws = sum_list ns" by auto
  from monthly_loop_volume [OF ne sn m0 b, of cal] obtain ms where
    ms: "monthlyVolumes (monthlyOut (monthly_loop cal ?rest ?m0)) = map (\<lambda>n. Fin (real n)) ms"
        "sum_list ms = sum_list ns" by auto
  have d: "dsum ?vs = Fin (real (sum_list ns))" using assms(3) by (rule dsum_nat)
  have dw: "dsum (map (\<lambda>n. Fin (real n)) ws) = Fin (real (sum_list ns))"
    using dsum_nat [of ws] ws(2) assms(3) by simp
  have dm: "dsum (map (\<lambda>n. Fin (real n)) ms) = Fin (real (sum_list ns))"
    using dsum_nat [of ms] ms(2) assms(3) by simp
  have "ns \<noteq> []" using assms by auto
  with assms(1,2) ws(1) ms(1) d dw dm show ?thesis
    by (simp add: resampleToWeeklyInternal_def resampleToMonthlyInternal_def)
qed

lemma round_double_Nats:
  assumes "x \<in> \<nat>" "x \<le> 2 ^ 53"
  shows "round_double x = Fin x"
proof -
  from assms(1) obtain n where x: "x = real n" by (auto elim: Nats_cases)
  with assms(2) have "real n \<le> real (2 ^ 53)" by simp
  then have "n \<le> 2 ^ 53" by (simp only: of_nat_le_iff)
  with x show ?thesis by (simp add: round_double_nat)
qed

lemma sample_calendar:
  "weekStart (fixed_offset_calendar 0) 1710460800000 = 1710115200000"
  "weekStart (fixed_offset_calendar 0) 1710720000000 = 1710720000000"
  "weekStart (fixed_offset_calendar 0) 1711929600000 = 1711929600000"
  "startOfDay (fixed_offset_calendar 0) 1710720000000 = 1710720000000"
  "startOfDay (fixed_offset_calendar 0) 1710806400000 = 1710806400000"
  "startOfDay (fixed_offset_calendar 0) 1711929600000 = 1711929600000"
  "fullYear (fixed_offset_calendar 0) 1710460800000 = 2024"
  "monthOf (fixed_offset_calendar 0) 1710460800000 = 2"
  "fullYear (fixed_offset_calendar 0) 1710720000000 = 2024"
  "monthOf (fixed_offset_calendar 0) 1710720000000 = 2"
  "fullYear (fixed_offset_calendar 0) 1710806400000 = 2024"
  "monthOf (fixed_offset_calendar 0) 1710806400000 = 2"
  "fullYear (fixed_offset_calendar 0) 1711929600000 = 2024"
  "monthOf (fixed_offset_calendar 0) 1711929600000 = 3"
  "monthStart (fixed_offset_calendar 0) 2024 2 = 1709251200000"
  "monthStart (fixed_offset_calendar 0) 2024 3 = 1711929600000"
  "fullYear (fixed_offset_calendar 0) 1709251200000 = 2024"
  "monthOf (fixed_offset_calendar 0) 1709251200000 = 2"
  by code_simp+

theorem resample_volume_conservation_witness:
  "length sample_days = length [1, 2, 3, 4::nat] \<and> sample_days \<noteq> [] \<and>
   sum_list [1, 2, 3, 4::nat] \<le> 2 ^ 53 \<and>
   weeklyVolumes (resampleToWeeklyInternal (fixed_offset_calendar 0) sample_days [Fin 1, Fin 2, Fin 3, Fin 4])
     = [Fin 1, Fin 5, Fin 4] \<and>
   monthlyVolumes (resampleToMonthlyInternal (fixed_offset_calendar 0) sample_days [Fin 1, Fin 2, Fin 3, Fin 4])
     = [Fin 6, Fin 4] \<and>
   dsum [Fin 1, Fin 5, Fin 4] = Fin 10 \<and> dsum [Fin 6, Fin 4] = Fin 10 \<and>
   dsum [Fin 1, Fin 2, Fin 3, Fin 4] = Fin 10"
proof -
  have h1: "length sample_days = length [1, 2, 3, 4::nat]" and h2: "sample_days \<noteq> []"
    by (simp_all add: sample_days_def)
  have h3: "sum_list [1, 2, 3, 4::nat] \<le> 2 ^ 53" by simp
  have v: "map (\<lambda>n. Fin (real n)) [1, 2, 3, 4::nat] = [Fin 1, Fin 2, Fin 3, Fin 4]" by simp
  have w: "weeklyVolumes (resampleToWeeklyInternal (fixed_offset_calendar 0) sample_days [Fin 1, Fin 2, Fin 3, Fin 4])
     = [Fin 1, Fin 5, Fin 4]"
    by (simp add: resampleToWeeklyInternal_def sample_days_def sample_calendar round_double_Nats Let_def)
  have m: "monthlyVolumes (resampleToMonthlyInternal (fixed_offset_calendar 0) sample_days [Fin 1, Fin 2, Fin 3, Fin 4])
     = [Fin 6, Fin 4]"
    by (simp add: resampleToMonthlyInternal_def sample_days_def sample_calendar round_double_Nats Let_def)
  have s: "real (sum_list [1, 2, 3, 4::nat]) = 10" by simp
  note T = resample_volume_conservation [OF h1 h2 h3, of "fixed_offset_calendar 0"]
  from T have a: "dsum [Fin 1, Fin 5, Fin 4] = Fin 10 \<and> dsum [Fin 6, Fin 4] = Fin 10 \<and>
      dsum [Fin 1, Fin 2, Fin 3, Fin 4] = Fin 10"
    unfolding v w m s by simp
  from h1 h2 h3 w m a show ?thesis by (intro conjI) simp_all
qed

lemma round_double_above_2_53:
  "round_double 9007199254740993 = Fin 9007199254740992"
  "round_double 9007199254740994 = Fin 9007199254740994"
  by code_simp+

text \<open>
  C8 (as stated) fails: the volumes \<open>2\<^sup>5\<^sup>3\<close>, 1, 1, 0 on the four sample days fall into the
  weekly buckets \<open>2\<^sup>5\<^sup>3\<close>, \<open>1 + 1\<close>, 0, whose sum in doubles is \<open>2\<^sup>5\<^sup>3 + 2\<close>, while the daily
  volumes sum to \<open>2\<^sup>5\<^sup>3\<close>, each \<open>+ 1\<close> being rounded away.
\<close>

theorem resample_rounding_counterexample:
  "length sample_days = length [Fin (2 ^ 53), Fin 1, Fin 1, Fin 0] \<and> sample_days \<noteq> [] \<and>
   weeklyVolumes (resampleToWeeklyInternal (fixed_offset_calendar 0) sample_days
                    [Fin (2 ^ 53), Fin 1, Fin 1, Fin 0]) = [Fin (2 ^ 53), Fin 2, Fin 0] \<and>
   dsum [Fin (2 ^ 53), Fin 2, Fin 0] = Fin 9007199254740994 \<and>
   dsum [Fin (2 ^ 53), Fin 1, Fin 1, Fin 0] = Fin 9007199254740992 \<and>
   Fin 9007199254740994 \<noteq> Fin 9007199254740992"
proof (intro conjI)
  show "length sample_days = length [Fin (2 ^ 53), Fin 1, Fin 1, Fin 0]"
    by (simp add: sample_days_def)
  show "sample_days \<noteq> []" by (simp add: sample_days_def)
  show "weeklyVolumes (resampleToWeeklyInternal (fixed_offset_calendar 0) sample_days
                    [Fin (2 ^ 53), Fin 1, Fin 1, Fin 0]) = [Fin (2 ^ 53), Fin 2, Fin 0]"
    by (simp add: resampleToWeeklyInternal_def sample_days_def sample_calendar round_double_Nats Let_def)
  show "dsum [Fin (2 ^ 53), Fin 2, Fin 0] = Fin 9007199254740994"
    by (simp add: dsum_def round_double_Nats round_double_above_2_53)
  show "dsum [Fin (2 ^ 53), Fin 1, Fin 1, Fin 0] = Fin 9007199254740992"
    by (simp add: dsum_def round_double_Nats round_double_above_2_53)
  show "Fin 9007199254740994 \<noteq> Fin 9007199254740992" by simp
qed

subsection \<open>Comparisons of finite numbers\<close>

lemma jle_Fin: "jle (Fin a) (Fin b) = (a \<le> b)"
  by (auto simp add: jle_def jeq_def)

lemma jeq_Fin: "jeq (Fin a) (Fin b) = (a = b)"
  by (simp add: jeq_def)

subsection \<open>CAGR\<close>

text \<open>
  C5 (as amended). For numeric \<open>end\<close>, \<open>start\<close> and \<open>years > 0\<close>: when \<open>start = 0\<close> the
  result is the not-available value \<open>N/A\<close>; otherwise, when \<open>start < 0\<close> or \<open>end \<le> 0\<close>,
  it is the \<open>Not Meaningful\<close> sentinel (distinct from \<open>N/A\<close>); otherwise its raw value is
  \<open>((end / start) ^ (1 / years) - 1) * 100\<close>. In particular
  \<open>CAGR(end = -5, start = 10, years = 2)\<close> is \<open>Not Meaningful\<close>.
\<close>

theorem cagr_sign_guard:
  assumes "0 < y"
  shows "calculateCAGRInternal (JNum (Fin e)) (JNum (Fin s)) (Fin y) DEFAULT_NA_STRING =
           (if s = 0 then \<lparr>fvalue = Text DEFAULT_NA_STRING, unit = [], raw = NaN, colorClass = []\<rparr>
            else if s < 0 \<or> e \<le> 0
            then \<lparr>fvalue = Text ''Not Meaningful'', unit = [], raw = NaN, colorClass = []\<rparr>
            else \<lparr>fvalue = ToFixed (Fin (((e / s) powr (1 / y) - 1) * 100)) 2, unit = ''%'',
                  raw = Fin (((e / s) powr (1 / y) - 1) * 100),
                  colorClass = sign_colorClass (Fin (((e / s) powr (1 / y) - 1) * 100))\<rparr>) \<and>
         fvalue (calculateCAGRInternal (JNum (Fin (- 5))) (JNum (Fin 10)) (Fin 2) DEFAULT_NA_STRING)
           = Text ''Not Meaningful'' \<and>
         Text ''Not Meaningful'' \<noteq> Text DEFAULT_NA_STRING"
  using assms
  by (auto simp add: calculateCAGRInternal_def Let_def jle_Fin jeq_Fin jsub_Fin pow_fin_def
      DEFAULT_NA_STRING_def not_le not_less)

theorem cagr_sign_guard_witness:
  "(0::real) < 1 \<and>
   calculateCAGRInternal (JNum (Fin 4)) (JNum (Fin 1)) (Fin 1) DEFAULT_NA_STRING =
     \<lparr>fvalue = ToFixed (Fin 300) 2, unit = ''%'', raw = Fin 300, colorClass = ''change-positive-text''\<rparr> \<and>
   calculateCAGRInternal (JNum (Fin 4)) (JNum (Fin (- 1))) (Fin 1) DEFAULT_NA_STRING =
     \<lparr>fvalue = Text ''Not Meaningful'', unit = [], raw = NaN, colorClass = []\<rparr> \<and>
   calculateCAGRInternal (JNum (Fin 4)) (JNum (Fin 0)) (Fin 1) DEFAULT_NA_STRING =
     \<lparr>fvalue = Text ''N/A'', unit = [], raw = NaN, colorClass = []\<rparr>"
proof -
  have h: "(0::real) < 1" by simp
  from cagr_sign_guard [OF h, of 4 1] cagr_sign_guard [OF h, of 4 "- 1"] cagr_sign_guard [OF h, of 4 0]
  show ?thesis by (simp add: sign_colorClass_def jgt_def DEFAULT_NA_STRING_def)
qed

text \<open>
  C5 (as stated) fails: \<open>start = 0\<close> satisfies \<open>start \<le> 0\<close>, and the result is \<open>N/A\<close>,
  not \<open>Not Meaningful\<close>.
\<close>

theorem cagr_zero_start_counterexample:
  "(0::real) \<le> 0 \<and>
   fvalue (calculateCAGRInternal (JNum (Fin 5)) (JNum (Fin 0)) (Fin 2) DEFAULT_NA_STRING) = Text ''N/A'' \<and>
   fvalue (calculateCAGRInternal (JNum (Fin 5)) (JNum (Fin 0)) (Fin 2) DEFAULT_NA_STRING) \<noteq> Text ''Not Meaningful''"
  by (simp add: calculateCAGRInternal_def jeq_def DEFAULT_NA_STRING_def)

subsection \<open>Net profit margin\<close>

lemma getSafe_number: "getSafeInternal (Some (JNum n)) d = JNum n"
  by (simp add: getSafeInternal_def)

text \<open>
  C6 at a revenue of zero. With a net income of 50 and a revenue of 0 the margin is not
  the not-available value: its raw value is \<open>+\<infinity>\<close> and its text is that of
  \<^verbatim>\<open>Infinity.toFixed(2)\<close>.
\<close>

theorem net_profit_margin_zero_revenue:
  "findFinancialByYearInternal [zero_revenue_year] 0 STMT_INC FIN_KEY_REVENUE (JStr DEFAULT_NA_STRING) = JNum (Fin 0) \<and>
   findFinancialByYearInternal [zero_revenue_year] 0 STMT_INC FIN_KEY_NET_INCOME (JStr DEFAULT_NA_STRING) = JNum (Fin 50) \<and>
   netProfitMarginMetric [zero_revenue_year] =
     \<lparr>fvalue = ToFixed PInf 2, unit = ''%'', raw = PInf, colorClass = ''change-positive-text''\<rparr> \<and>
   fvalue (netProfitMarginMetric [zero_revenue_year]) \<noteq> Text DEFAULT_NA_STRING"
  by (simp add: netProfitMarginMetric_def netProfitMarginRaw_def findFinancialByYearInternal_def
      zero_revenue_year_def STMT_INC_def FIN_KEY_REVENUE_def FIN_KEY_NET_INCOME_def getSafe_number
      formatPercentageInternal_def signed_inf_def sign_colorClass_def jgt_def)

text \<open>The part of the claim the code keeps: a missing operand gives \<open>N/A\<close>.\<close>

lemma parseFloat_string_NA: "parseFloat_string DEFAULT_NA_STRING = NaN"
  by (simp add: DEFAULT_NA_STRING_def parseFloat_string_def is_space_def is_digit_def)

lemma jdiv_NaN_right: "jdiv a NaN = NaN"
  by (cases a) simp_all

lemma net_profit_margin_missing_operand:
  "findFinancialByYearInternal fin 0 STMT_INC FIN_KEY_NET_INCOME (JStr DEFAULT_NA_STRING) = JStr DEFAULT_NA_STRING
   \<or> findFinancialByYearInternal fin 0 STMT_INC FIN_KEY_REVENUE (JStr DEFAULT_NA_STRING) = JStr DEFAULT_NA_STRING
   \<Longrightarrow> netProfitMarginMetric fin = \<lparr>fvalue = Text DEFAULT_NA_STRING, unit = [], raw = NaN, colorClass = []\<rparr>"
  by (auto simp add: netProfitMarginMetric_def netProfitMarginRaw_def parseFloat_string_NA jdiv_NaN_right
      formatPercentageInternal_def Let_def)

subsection \<open>Peer averages\<close>




















subsection \<open>Signal scoring\<close>

lemma inv_bullish: "0 < pts \<Longrightarrow> score_invariant st \<Longrightarrow> score_invariant (bullish_vote pts r st)"
  by (auto simp add: score_invariant_def bullish_vote_def)

lemma inv_bearish: "0 < pts \<Longrightarrow> score_invariant st \<Longrightarrow> score_invariant (bearish_vote pts r st)"
  by (auto simp add: score_invariant_def bearish_vote_def)

lemma inv_sma: "0 < w \<Longrightarrow> score_invariant st \<Longrightarrow> score_invariant (sma_vote n w price sm st p)"
  by (simp add: sma_vote_def inv_bullish inv_bearish split: option.splits)

lemma inv_ema: "0 < w \<Longrightarrow> score_invariant st \<Longrightarrow> score_invariant (ema_vote n w price em st p)"
  by (simp add: ema_vote_def inv_bullish inv_bearish split: option.splits)

lemma inv_sma_fold:
  "0 < w \<Longrightarrow> score_invariant st \<Longrightarrow> score_invariant (foldl (sma_vote n w price sm) st ps)"
  by (induction ps arbitrary: st) (simp_all add: inv_sma)

lemma inv_ema_fold:
  "0 < w \<Longrightarrow> score_invariant st \<Longrightarrow> score_invariant (foldl (ema_vote n w price em) st ps)"
  by (induction ps arbitrary: st) (simp_all add: inv_ema)

lemma inv_macd: "0 < w \<Longrightarrow> score_invariant st \<Longrightarrow> score_invariant (macd_vote n w m st)"
  by (simp add: macd_vote_def Let_def inv_bullish inv_bearish split: option.splits)

lemma inv_rsi: "0 < w \<Longrightarrow> score_invariant st \<Longrightarrow> score_invariant (rsi_vote n w r st)"
  by (simp add: rsi_vote_def Let_def inv_bullish inv_bearish split: option.splits)

lemma inv_vwap: "0 < w \<Longrightarrow> score_invariant st \<Longrightarrow> score_invariant (vwap_vote n w price v st)"
  by (simp add: vwap_vote_def Let_def inv_bullish inv_bearish)

lemma inv_obv: "0 < w \<Longrightarrow> score_invariant st \<Longrightarrow> score_invariant (obv_vote n w obv st)"
  by (simp add: obv_vote_def Let_def inv_bullish inv_bearish split: option.splits)

lemma inv_timeframe:
  "0 < tf_weight tf \<Longrightarrow> score_invariant st \<Longrightarrow> score_invariant (score_timeframe price st tf)"
  by (simp add: score_timeframe_def Let_def inv_sma_fold inv_ema_fold inv_macd inv_rsi inv_vwap inv_obv
      split: option.splits)

lemma inv_accumulate: "score_invariant (accumulate_scores ad)"
proof -
  have "score_invariant \<lparr>totalBullishScore = 0, totalBearishScore = 0, signalReasons = []\<rparr>"
    by (simp add: score_invariant_def)
  then show ?thesis
    by (simp add: accumulate_scores_def timeframes_def inv_timeframe)
qed

text \<open>
  C3. For an analysis run that reaches the scoring (analysis tab active, no error, a
  current price), with \<open>B\<close> and \<open>R\<close> the accumulated bullish and bearish scores: the
  signal is Bullish exactly when \<open>B > R * 1.1\<close>, Bearish exactly when \<open>R > B * 1.1\<close>, the
  insufficient-data outcome exactly when no vote was cast (\<open>B = 0\<close>, \<open>R = 0\<close>, no
  reasons), and Neutral otherwise.
\<close>

theorem final_classification:
  assumes "activeTab = ''analysis''" "\<not> message_truthy (analysis_error ad)"
    "\<not> message_truthy (error (daily ad))"
    "currentPriceForAnalysis ad = Some price" "number_truthy price"
  shows "let st = accumulate_scores ad;
             B = totalBullishScore st;
             R = totalBearishScore st;
             sig = signal (generateTechnicalSignal activeTab (Some ad))
         in 0 \<le> B \<and> 0 \<le> R \<and>
            (sig = ''Bullish'' \<longleftrightarrow> R * 1.1 < B) \<and>
            (sig = ''Bearish'' \<longleftrightarrow> B * 1.1 < R) \<and>
            (sig = ''Not Enough Data for Signal'' \<longleftrightarrow> signalReasons st = [] \<and> B = 0 \<and> R = 0) \<and>
            (sig = ''Neutral'' \<longleftrightarrow>
               \<not> R * 1.1 < B \<and> \<not> B * 1.1 < R \<and> \<not> (signalReasons st = [] \<and> B = 0 \<and> R = 0))"
proof -
  let ?st = "accumulate_scores ad"
  have sig: "signal (generateTechnicalSignal activeTab (Some ad)) = final_signal ?st"
    using assms by (simp add: generateTechnicalSignal_def Let_def)
  have inv: "score_invariant ?st" by (rule inv_accumulate)
  then have nn: "0 \<le> totalBullishScore ?st" "0 \<le> totalBearishScore ?st"
    by (simp_all add: score_invariant_def)
  have excl: "\<not> (totalBearishScore ?st * 1.1 < totalBullishScore ?st \<and>
                 totalBullishScore ?st * 1.1 < totalBearishScore ?st)"
    using nn by argo
  show ?thesis
    unfolding Let_def sig using nn excl
    by (auto simp add: final_signal_def Let_def)
qed

theorem final_classification_witness:
  "''analysis'' = ''analysis'' \<and> \<not> message_truthy (analysis_error example_analysis) \<and>
   \<not> message_truthy (error (daily example_analysis)) \<and>
   currentPriceForAnalysis example_analysis = Some (Fin 100) \<and> number_truthy (Fin 100) \<and>
   totalBullishScore (accumulate_scores example_analysis) = 2 \<and>
   totalBearishScore (accumulate_scores example_analysis) = 1 \<and>
   (1::real) * 1.1 < 2 \<and>
   signal (generateTechnicalSignal ''analysis'' (Some example_analysis)) = ''Bullish''"
proof -
  have h1: "''analysis'' = ''analysis''" by simp
  have h2: "\<not> message_truthy (analysis_error example_analysis)"
    by (simp add: example_analysis_def message_truthy_def)
  have h3: "\<not> message_truthy (error (daily example_analysis))"
    by (simp add: example_analysis_def message_truthy_def sma20_only_def empty_indicators_def)
  have h4: "currentPriceForAnalysis example_analysis = Some (Fin 100)"
    by (simp add: example_analysis_def)
  have h5: "number_truthy (Fin 100)" by (simp add: number_truthy_def)
  have acc: "accumulate_scores example_analysis =
        \<lparr>totalBullishScore = 2, totalBearishScore = 1,
         signalReasons = [''Daily: Price < SMA 20'', ''Monthly: Price > SMA 20'']\<rparr>"
    by code_simp
  from final_classification [OF h1 h2 h3 h4 h5] acc h2 h3 h4 h5 show ?thesis
    by (simp add: Let_def)
qed

subsection \<open>Votes of the moving averages\<close>



















end
